theory Spec2Isabelle
  imports Main "HOL-Library.Word"
begin

unbundle bit_operations_syntax

section \<open>Project store: data model\<close>

text \<open>
  The project store (\<^verbatim>\<open>dpengine/project.c\<close>) records protocol messages into an embedded
  SQLite database. The C integers are modelled with their widths: \<^verbatim>\<open>long long\<close> is a
  64-bit word (read as two's complement by \<open>sint\<close>), bytes are 8-bit words. SQLite
  result codes and the values returned by \<^verbatim>\<open>DP_project_check\<close> are small C ints on
  which no arithmetic is done; they are values of type \<open>int\<close>.
\<close>

type_synonym byte = "8 word"
type_synonym long_long = "64 word"

text \<open>Result codes of \<^verbatim>\<open>sqlite3.h\<close> that the source compares against.\<close>

definition SQLITE_OK :: int where "SQLITE_OK = 0"
definition SQLITE_ROW :: int where "SQLITE_ROW = 100"
definition SQLITE_DONE :: int where "SQLITE_DONE = 101"

definition is_ok :: "int \<Rightarrow> bool" where
  "is_ok result = (result = SQLITE_OK)"

text \<open>Constants of \<^verbatim>\<open>project.h\<close>.\<close>

definition DP_PROJECT_APPLICATION_ID :: int where "DP_PROJECT_APPLICATION_ID = 520585024"
definition DP_PROJECT_USER_VERSION :: int where "DP_PROJECT_USER_VERSION = 1"

definition DP_PROJECT_CHECK_ERROR_OPEN :: int where "DP_PROJECT_CHECK_ERROR_OPEN = - 1"
definition DP_PROJECT_CHECK_ERROR_READ :: int where "DP_PROJECT_CHECK_ERROR_READ = - 2"
definition DP_PROJECT_CHECK_ERROR_HEADER :: int where "DP_PROJECT_CHECK_ERROR_HEADER = - 3"
definition DP_PROJECT_CHECK_ERROR_MAGIC :: int where "DP_PROJECT_CHECK_ERROR_MAGIC = - 4"
definition DP_PROJECT_CHECK_ERROR_APPLICATION_ID :: int where
  "DP_PROJECT_CHECK_ERROR_APPLICATION_ID = - 5"
definition DP_PROJECT_CHECK_ERROR_USER_VERSION :: int where
  "DP_PROJECT_CHECK_ERROR_USER_VERSION = - 6"

datatype DP_ProjectSourceType =
  DP_PROJECT_SOURCE_BLANK | DP_PROJECT_SOURCE_FILE_OPEN | DP_PROJECT_SOURCE_SESSION_JOIN

text \<open>The cast \<^verbatim>\<open>(int)source_type\<close>: enumerators count from 0 in declaration order.\<close>

fun source_type_int :: "DP_ProjectSourceType \<Rightarrow> int" where
  "source_type_int DP_PROJECT_SOURCE_BLANK = 0"
| "source_type_int DP_PROJECT_SOURCE_FILE_OPEN = 1"
| "source_type_int DP_PROJECT_SOURCE_SESSION_JOIN = 2"

datatype DP_ProjectStatement =
  DP_PROJECT_STATEMENT_MESSAGE_INSERT
| DP_PROJECT_STATEMENT_SESSION_OPEN
| DP_PROJECT_STATEMENT_SESSION_CLOSE

fun ps_title :: "DP_ProjectStatement \<Rightarrow> string" where
  "ps_title DP_PROJECT_STATEMENT_MESSAGE_INSERT = ''message insert''"
| "ps_title DP_PROJECT_STATEMENT_SESSION_OPEN = ''session open''"
| "ps_title DP_PROJECT_STATEMENT_SESSION_CLOSE = ''session close''"

text \<open>
  \<^verbatim>\<open>DP_error_set\<close> writes a formatted message into a process-visible error slot. The
  model keeps one constructor per call site of \<^verbatim>\<open>DP_error_set\<close>, carrying the arguments
  of the format string in the order the source passes them.
\<close>

datatype dp_error =
  Error_preparing_statement int string string
    \<comment> \<open>\<^verbatim>\<open>Error %d preparing statement '%s': %s\<close>\<close>
| Error_exec int string string
    \<comment> \<open>\<^verbatim>\<open>Error %d %s: %s\<close> (result, title, message)\<close>
| Statement_no_columns string
    \<comment> \<open>\<^verbatim>\<open>Statement '%s' resulted in no columns\<close>\<close>
| Error_executing_statement int string string
    \<comment> \<open>\<^verbatim>\<open>Error %d executing statement '%s': %s\<close>\<close>
| Incorrect_application_id int
    \<comment> \<open>\<^verbatim>\<open>File has incorrect application id %d\<close>\<close>
| Unknown_user_version int
    \<comment> \<open>\<^verbatim>\<open>File has unknown user version %d\<close>\<close>
| Error_binding_migration int string
| Error_inserting_migration int string
| Error_resetting_migration int string
| Error_opening int string string
    \<comment> \<open>\<^verbatim>\<open>Error %d opening '%s': %s\<close>\<close>
| Error_read_only string
    \<comment> \<open>\<^verbatim>\<open>Error opening '%s': database is read-only\<close>\<close>
| Error_binding_int int nat string string
    \<comment> \<open>\<^verbatim>\<open>Error %d binding int parameter %d to %s: %s\<close>\<close>
| Error_binding_int64 int nat string string
| Error_binding_blob int nat string string
    \<comment> \<open>also used by \<^verbatim>\<open>ps_bind_text\<close>, whose message says "blob"\<close>
| Error_resetting int string string
    \<comment> \<open>\<^verbatim>\<open>Error %d resetting %s: %s\<close>\<close>
| Error_executing int string string
    \<comment> \<open>\<^verbatim>\<open>Error %d executing %s: %s\<close>\<close>
| Session_already_open long_long
    \<comment> \<open>\<^verbatim>\<open>Error opening session: session %lld already open\<close>\<close>
| No_open_session
    \<comment> \<open>\<^verbatim>\<open>No open session\<close>\<close>

subsection \<open>The database as the store sees it\<close>

text \<open>
  SQLite itself is an external library. The model keeps what the three cached
  statements of the source do to the tables when \<^verbatim>\<open>sqlite3_step\<close> completes, read off
  their SQL text in \<^verbatim>\<open>DP_project_open\<close>: the message insert adds a row built from its five
  parameters, the session insert adds a row with the row id the engine assigns, the
  session update marks the rows with the given id as closed. The wall-clock columns
  (\<^verbatim>\<open>recorded_at\<close>, \<^verbatim>\<open>opened_at\<close>, \<^verbatim>\<open>closed_at\<close>) carry no value in the model.
  Whether a call into the engine succeeds is not decided by the model: every engine
  call takes its result code from an environment record.
\<close>

datatype sql_value =
  SqlNull | SqlInt int | SqlInt64 long_long | SqlText string | SqlBlob "byte list"

record message_row =
  m_session_id :: sql_value
  m_sequence_id :: sql_value
  m_type :: sql_value
  m_context_id :: sql_value
  m_body :: sql_value

record session_row =
  s_session_id :: long_long
  s_source_type :: sql_value
  s_source_param :: sql_value
  s_protocol :: sql_value
  s_process_id :: sql_value
  s_closed :: bool

record sqlite3 =
  messages :: "message_row list"
  sessions :: "session_row list"

text \<open>
  A prepared statement is known by its SQL text and holds its parameter bindings; an
  unbound parameter is NULL.
\<close>

record sqlite3_stmt =
  stmt_sql :: string
  bindings :: "nat \<Rightarrow> sql_value"

definition unbound :: "nat \<Rightarrow> sql_value" where
  "unbound = (\<lambda>_. SqlNull)"

text \<open>
  The environment of one API call on an open store: the result code of binding each
  parameter index, of \<^verbatim>\<open>sqlite3_step\<close> and \<^verbatim>\<open>sqlite3_reset\<close> on the statement, the row
  id reported by \<^verbatim>\<open>sqlite3_last_insert_rowid\<close>, the text of \<^verbatim>\<open>sqlite3_errmsg\<close> and the
  value of \<^verbatim>\<open>DP_process_current_id\<close>.
\<close>

record stmt_env =
  bind_result :: "nat \<Rightarrow> int"
  step_result :: int
  reset_result :: int
  last_insert_rowid :: long_long
  errmsg :: string
  process_id :: long_long

text \<open>
  \<^verbatim>\<open>struct DP_Project\<close>. The field \<open>db\<close> holds the content of the database behind the
  handle; \<open>dp_error\<close> is the error slot of \<^verbatim>\<open>DP_error_set\<close>, which lives outside the
  struct in the source and is carried here so that every function passes one state.
\<close>

record DP_Project =
  db :: sqlite3
  session_id :: long_long
  sequence_id :: long_long
  stmts :: "DP_ProjectStatement \<Rightarrow> sqlite3_stmt"
  serialize_buffer :: "byte list"
  dp_error :: "dp_error option"

definition DP_error_set :: "dp_error \<Rightarrow> DP_Project \<Rightarrow> DP_Project" where
  "DP_error_set e prj = prj\<lparr>dp_error := Some e\<rparr>"

text \<open>The short-circuit conjunction \<^verbatim>\<open>a && b\<close> of two calls that change the state.\<close>

definition and_also :: "bool \<times> 's \<Rightarrow> ('s \<Rightarrow> bool \<times> 's) \<Rightarrow> bool \<times> 's" where
  "and_also a b = (if fst a then b (snd a) else a)"

section \<open>Project store: statements\<close>

definition bind_param :: "DP_ProjectStatement \<Rightarrow> nat \<Rightarrow> sql_value \<Rightarrow> DP_Project \<Rightarrow> DP_Project"
  where
  "bind_param ps param v prj =
     prj\<lparr>stmts := (stmts prj)
            (ps := (stmts prj ps)\<lparr>bindings := (bindings (stmts prj ps))(param := v)\<rparr>)\<rparr>"

definition ps_bind_int ::
  "stmt_env \<Rightarrow> DP_ProjectStatement \<Rightarrow> nat \<Rightarrow> int \<Rightarrow> DP_Project \<Rightarrow> bool \<times> DP_Project" where
  "ps_bind_int env ps param v prj =
     (let bind_res = bind_result env param in
      if is_ok bind_res then (True, bind_param ps param (SqlInt v) prj)
      else (False,
            DP_error_set (Error_binding_int bind_res param (ps_title ps) (errmsg env)) prj))"

definition ps_bind_int64 ::
  "stmt_env \<Rightarrow> DP_ProjectStatement \<Rightarrow> nat \<Rightarrow> long_long \<Rightarrow> DP_Project \<Rightarrow> bool \<times> DP_Project"
  where
  "ps_bind_int64 env ps param v prj =
     (let bind_res = bind_result env param in
      if is_ok bind_res then (True, bind_param ps param (SqlInt64 v) prj)
      else (False,
            DP_error_set (Error_binding_int64 bind_res param (ps_title ps) (errmsg env)) prj))"

definition ps_bind_blob ::
  "stmt_env \<Rightarrow> DP_ProjectStatement \<Rightarrow> nat \<Rightarrow> byte list \<Rightarrow> DP_Project \<Rightarrow> bool \<times> DP_Project"
  where
  "ps_bind_blob env ps param v prj =
     (let bind_res = bind_result env param in
      if is_ok bind_res then (True, bind_param ps param (SqlBlob v) prj)
      else (False,
            DP_error_set (Error_binding_blob bind_res param (ps_title ps) (errmsg env)) prj))"

text \<open>A null pointer passed to \<^verbatim>\<open>sqlite3_bind_text\<close> binds NULL.\<close>

definition ps_bind_text ::
  "stmt_env \<Rightarrow> DP_ProjectStatement \<Rightarrow> nat \<Rightarrow> string option \<Rightarrow> DP_Project \<Rightarrow> bool \<times> DP_Project"
  where
  "ps_bind_text env ps param v prj =
     (let bind_res = bind_result env param in
      if is_ok bind_res
      then (True, bind_param ps param (case v of None \<Rightarrow> SqlNull | Some s \<Rightarrow> SqlText s) prj)
      else (False,
            DP_error_set (Error_binding_blob bind_res param (ps_title ps) (errmsg env)) prj))"

text \<open>What a completed \<^verbatim>\<open>sqlite3_step\<close> of each cached statement does to the tables.\<close>

fun run_statement ::
  "DP_ProjectStatement \<Rightarrow> (nat \<Rightarrow> sql_value) \<Rightarrow> long_long \<Rightarrow> sqlite3 \<Rightarrow> sqlite3" where
  "run_statement DP_PROJECT_STATEMENT_MESSAGE_INSERT b rowid d =
     d\<lparr>messages := messages d @
        [\<lparr>m_session_id = b 1, m_sequence_id = b 2, m_type = b 3, m_context_id = b 4,
          m_body = b 5\<rparr>]\<rparr>"
| "run_statement DP_PROJECT_STATEMENT_SESSION_OPEN b rowid d =
     d\<lparr>sessions := sessions d @
        [\<lparr>s_session_id = rowid, s_source_type = b 1, s_source_param = b 2, s_protocol = b 3,
          s_process_id = b 4, s_closed = False\<rparr>]\<rparr>"
| "run_statement DP_PROJECT_STATEMENT_SESSION_CLOSE b rowid d =
     d\<lparr>sessions :=
        map (\<lambda>r. if SqlInt64 (s_session_id r) = b 1 then r\<lparr>s_closed := True\<rparr> else r)
          (sessions d)\<rparr>"

text \<open>
  \<^verbatim>\<open>ps_exec_write\<close>. The pointer \<^verbatim>\<open>out_insert_rowid\<close> is either null (\<open>None\<close>) or the
  address of a field of the project, given as the function that stores into it.
  A failed reset after a failed step is only logged.
\<close>

definition ps_exec_write ::
  "stmt_env \<Rightarrow> DP_ProjectStatement \<Rightarrow> (long_long \<Rightarrow> DP_Project \<Rightarrow> DP_Project) option
     \<Rightarrow> DP_Project \<Rightarrow> bool \<times> DP_Project" where
  "ps_exec_write env ps out_insert_rowid prj =
     (if step_result env = SQLITE_DONE then
        (let prj1 = prj\<lparr>db := run_statement ps (bindings (stmts prj ps)) (last_insert_rowid env)
                               (db prj)\<rparr>
         in if is_ok (reset_result env) then
              (True, case out_insert_rowid of
                       None \<Rightarrow> prj1
                     | Some store \<Rightarrow> store (last_insert_rowid env) prj1)
            else
              (False,
               DP_error_set (Error_resetting (reset_result env) (ps_title ps) (errmsg env)) prj1))
      else
        (False,
         DP_error_set (Error_executing (step_result env) (ps_title ps) (errmsg env)) prj))"

definition ps_clear_bindings :: "DP_ProjectStatement \<Rightarrow> DP_Project \<Rightarrow> DP_Project" where
  "ps_clear_bindings ps prj =
     prj\<lparr>stmts := (stmts prj)(ps := (stmts prj ps)\<lparr>bindings := unbound\<rparr>)\<rparr>"

section \<open>Project store: sessions\<close>

definition DP_project_session_id :: "DP_Project \<Rightarrow> long_long" where
  "DP_project_session_id prj = session_id prj"

definition DP_project_session_open ::
  "stmt_env \<Rightarrow> DP_ProjectSourceType \<Rightarrow> string option \<Rightarrow> string \<Rightarrow> DP_Project
     \<Rightarrow> bool \<times> DP_Project" where
  "DP_project_session_open env source_type source_param protocol prj =
     (if session_id prj = 0 then
        (let prj0 = prj\<lparr>sequence_id := 0\<rparr>;
             (write_ok, prj1) =
               and_also (and_also (and_also (and_also
                 (ps_bind_int env DP_PROJECT_STATEMENT_SESSION_OPEN 1
                    (source_type_int source_type) prj0)
                 (ps_bind_text env DP_PROJECT_STATEMENT_SESSION_OPEN 2 source_param))
                 (ps_bind_text env DP_PROJECT_STATEMENT_SESSION_OPEN 3 (Some protocol)))
                 (ps_bind_int64 env DP_PROJECT_STATEMENT_SESSION_OPEN 4 (process_id env)))
                 (ps_exec_write env DP_PROJECT_STATEMENT_SESSION_OPEN
                    (Some (\<lambda>v p. p\<lparr>session_id := v\<rparr>)))
         in (write_ok, ps_clear_bindings DP_PROJECT_STATEMENT_SESSION_OPEN prj1))
      else
        (False, DP_error_set (Session_already_open (session_id prj)) prj))"

text \<open>Returns 1 on successful close, 0 on error, -1 if there is nothing to close.\<close>

definition DP_project_session_close :: "stmt_env \<Rightarrow> DP_Project \<Rightarrow> int \<times> DP_Project" where
  "DP_project_session_close env prj =
     (let sid = session_id prj in
      if sid = 0 then (- 1, prj)
      else
        (let prj0 = prj\<lparr>session_id := 0\<rparr>;
             (update_ok, prj1) =
               and_also (ps_bind_int64 env DP_PROJECT_STATEMENT_SESSION_CLOSE 1 sid prj0)
                 (ps_exec_write env DP_PROJECT_STATEMENT_SESSION_CLOSE None)
         in (if update_ok then 1 else 0, prj1)))"

section \<open>Project store: recording messages\<close>

text \<open>
  Modelled from the spec: \<^verbatim>\<open>DP_Message\<close> and its accessors belong to the message
  codec (\<^verbatim>\<open>dpmsg/message.h\<close>), which is not among the sources at hand. The store
  consumes a message through its type code, its context id and the serialization of its
  body into a buffer, which returns the number of bytes written; a message is
  represented by these three values.
\<close>

record DP_Message =
  message_type :: int
  message_context_id :: long_long
  message_body :: "byte list"

text \<open>
  Modelled from the spec: \<^verbatim>\<open>DP_message_serialize_body\<close> writes the body at the start of
  the buffer obtained from \<^verbatim>\<open>get_serialize_buffer\<close> (the project's own buffer) and returns
  its length.
\<close>

definition DP_message_serialize_body :: "DP_Message \<Rightarrow> DP_Project \<Rightarrow> nat \<times> DP_Project" where
  "DP_message_serialize_body msg prj =
     (length (message_body msg),
      prj\<lparr>serialize_buffer :=
            message_body msg @ drop (length (message_body msg)) (serialize_buffer prj)\<rparr>)"

definition DP_project_message_record ::
  "stmt_env \<Rightarrow> DP_Message \<Rightarrow> DP_Project \<Rightarrow> bool \<times> DP_Project" where
  "DP_project_message_record env msg prj =
     (let sid = session_id prj in
      if sid = 0 then (False, DP_error_set No_open_session prj)
      else
        (let (len, prj0) = DP_message_serialize_body msg prj in
         if len = 0 then (False, prj0)
         else
           (let (write_ok, prj1) =
              and_also (and_also (and_also (and_also (and_also
                (ps_bind_int64 env DP_PROJECT_STATEMENT_MESSAGE_INSERT 1 sid prj0)
                (\<lambda>p. let p' = p\<lparr>sequence_id := sequence_id p + 1\<rparr>
                     in ps_bind_int64 env DP_PROJECT_STATEMENT_MESSAGE_INSERT 2
                          (sequence_id p') p'))
                (ps_bind_int env DP_PROJECT_STATEMENT_MESSAGE_INSERT 3 (message_type msg)))
                (ps_bind_int64 env DP_PROJECT_STATEMENT_MESSAGE_INSERT 4
                   (message_context_id msg)))
                (\<lambda>p. ps_bind_blob env DP_PROJECT_STATEMENT_MESSAGE_INSERT 5
                       (take len (serialize_buffer p)) p))
                (ps_exec_write env DP_PROJECT_STATEMENT_MESSAGE_INSERT None)
            in (write_ok, ps_clear_bindings DP_PROJECT_STATEMENT_MESSAGE_INSERT prj1))))"


text \<open>
  The calls are made one after the other on the same handle: \<open>record_all\<close> runs
  \<^verbatim>\<open>DP_project_message_record\<close> for each message with its own environment and collects
  the results.
\<close>

fun record_all ::
  "(stmt_env \<times> DP_Message) list \<Rightarrow> DP_Project \<Rightarrow> bool list \<times> DP_Project" where
  "record_all [] prj = ([], prj)"
| "record_all ((env, msg) # calls) prj =
     (let (ok, prj1) = DP_project_message_record env msg prj;
          (oks, prj2) = record_all calls prj1
      in (ok # oks, prj2))"

text \<open>The rows of the messages table written between two states of the same store.\<close>

definition recorded_since :: "DP_Project \<Rightarrow> DP_Project \<Rightarrow> message_row list" where
  "recorded_since before after = drop (length (messages (db before))) (messages (db after))"

text \<open>The sequence id of a row, read as the signed 64-bit integer the source binds.\<close>

definition sequence_number :: "message_row \<Rightarrow> int option" where
  "sequence_number r = (case m_sequence_id r of SqlInt64 w \<Rightarrow> Some (sint w) | _ \<Rightarrow> None)"

section \<open>Project store: header check\<close>

text \<open>
  Modelled from the spec: the file input of \<^verbatim>\<open>dpcommon/input.h\<close> is not among the
  sources at hand. Opening a path either fails (a null input) or gives an input;
  reading gives the first bytes of the file, at most as many as requested, or reports
  an error.
\<close>

record DP_Input =
  input_content :: "byte list"
  input_error :: bool

type_synonym file_system = "string \<Rightarrow> DP_Input option"

definition DP_file_input_new_from_path :: "file_system \<Rightarrow> string \<Rightarrow> DP_Input option" where
  "DP_file_input_new_from_path fs path = fs path"

definition DP_input_read :: "DP_Input \<Rightarrow> nat \<Rightarrow> byte list \<times> bool" where
  "DP_input_read input n =
     (if input_error input then ([], True) else (take n (input_content input), False))"

text \<open>
  Modelled from the spec: \<^verbatim>\<open>DP_read_bigendian_int32\<close> of \<^verbatim>\<open>dpcommon/binary.h\<close> is not
  among the sources at hand; it reads four bytes, most significant first, as a signed
  32-bit integer. The argument is the memory from the pointer on.
\<close>

definition DP_read_bigendian_int32 :: "byte list \<Rightarrow> int" where
  "DP_read_bigendian_int32 p =
     sint (word_of_int
        (uint (p ! 0) * 2 ^ 24 + uint (p ! 1) * 2 ^ 16 + uint (p ! 2) * 2 ^ 8 + uint (p ! 3))
        :: 32 word)"

text \<open>\<^verbatim>\<open>SQLite format 3\<close> and a zero byte, in ASCII.\<close>

definition magic :: "byte list" where
  "magic = [0x53, 0x51, 0x4c, 0x69, 0x74, 0x65, 0x20, 0x66,
            0x6f, 0x72, 0x6d, 0x61, 0x74, 0x20, 0x33, 0x00]"

definition DP_project_check :: "file_system \<Rightarrow> string \<Rightarrow> int" where
  "DP_project_check fs path =
     (case DP_file_input_new_from_path fs path of
        None \<Rightarrow> DP_PROJECT_CHECK_ERROR_OPEN
      | Some input \<Rightarrow>
          (let (buffer, error) = DP_input_read input 72 in
           if error then DP_PROJECT_CHECK_ERROR_READ
           else if length buffer < 72 then DP_PROJECT_CHECK_ERROR_HEADER
           else if take (length magic) buffer \<noteq> magic then DP_PROJECT_CHECK_ERROR_MAGIC
           else
             (let application_id = DP_read_bigendian_int32 (drop 68 buffer) in
              if application_id \<noteq> DP_PROJECT_APPLICATION_ID
              then DP_PROJECT_CHECK_ERROR_APPLICATION_ID
              else
                (let user_version = DP_read_bigendian_int32 (drop 60 buffer) in
                 if user_version < 1 then DP_PROJECT_CHECK_ERROR_USER_VERSION
                 else user_version))))"


section \<open>Project store: opening\<close>

text \<open>
  A function of the source that returns \<^verbatim>\<open>false\<close> (or a null pointer) after
  \<^verbatim>\<open>DP_error_set\<close> is modelled with a sum type: \<open>Inl e\<close> is the failure with the error
  \<open>e\<close> in the slot, \<open>Inr v\<close> the success with its result. \<open>then_do\<close> is the
  short-circuit \<^verbatim>\<open>&&\<close> of two such calls.
\<close>

definition then_do :: "dp_error + 'a \<Rightarrow> ('a \<Rightarrow> dp_error + 'b) \<Rightarrow> dp_error + 'b" where
  "then_do a b = (case a of Inl e \<Rightarrow> Inl e | Inr v \<Rightarrow> b v)"

text \<open>The engine's answers to one \<^verbatim>\<open>exec_int_stmt\<close>.\<close>

record query_env =
  q_prepare_result :: int
  q_step_result :: int
  q_column_count :: int
  q_column_int :: int

text \<open>The engine's answers inside \<^verbatim>\<open>apply_migrations\<close>, per index of the migration.\<close>

record migration_env =
  create_table_result :: int
  insert_prepare_result :: int
  mig_bind_result :: "nat \<Rightarrow> int"
  mig_step_result :: "nat \<Rightarrow> int"
  mig_changes :: "nat \<Rightarrow> int"
  mig_reset_result :: "nat \<Rightarrow> int"
  mig_exec_result :: "nat \<Rightarrow> int"

text \<open>
  The environment of \<^verbatim>\<open>DP_project_open\<close>: the result of \<^verbatim>\<open>sqlite3_open_v2\<close> for the
  flags it is given, of \<^verbatim>\<open>sqlite3_db_readonly\<close>, of the queries and statements of the
  header handling, of the transaction, and of preparing each cached statement; the
  tables found in the file; the text of \<^verbatim>\<open>sqlite3_errmsg\<close>; the content of the error
  slot and of the freshly allocated buffer when the call starts.
\<close>

record open_env =
  open_v2_result :: "32 word \<Rightarrow> int"
  db_readonly :: int
  empty_query :: query_env
  set_application_id_result :: int
  set_user_version_result :: int
  application_id_query :: query_env
  user_version_query :: query_env
  begin_result :: int
  migration :: migration_env
  commit_result :: int
  statement_prepare_result :: "nat \<Rightarrow> int"
  file_tables :: sqlite3
  open_errmsg :: string
  error_slot :: "dp_error option"
  allocated_buffer :: "byte list"

definition DP_PROJECT_OPEN_EXISTING :: "32 word" where "DP_PROJECT_OPEN_EXISTING = push_bit 0 1"
definition DP_PROJECT_OPEN_TRUNCATE :: "32 word" where "DP_PROJECT_OPEN_TRUNCATE = push_bit 1 1"

text \<open>Open flags of \<^verbatim>\<open>sqlite3.h\<close>.\<close>

definition SQLITE_OPEN_READWRITE :: "32 word" where "SQLITE_OPEN_READWRITE = 0x2"
definition SQLITE_OPEN_CREATE :: "32 word" where "SQLITE_OPEN_CREATE = 0x4"
definition SQLITE_OPEN_FULLMUTEX :: "32 word" where "SQLITE_OPEN_FULLMUTEX = 0x10000"

definition prepare :: "int \<Rightarrow> string \<Rightarrow> string \<Rightarrow> dp_error + sqlite3_stmt" where
  "prepare prepare_result sql msg =
     (if is_ok prepare_result then Inr \<lparr>stmt_sql = sql, bindings = unbound\<rparr>
      else Inl (Error_preparing_statement prepare_result sql msg))"

definition exec_write_stmt :: "int \<Rightarrow> string \<Rightarrow> string \<Rightarrow> dp_error + unit" where
  "exec_write_stmt exec_result title msg =
     (if is_ok exec_result then Inr () else Inl (Error_exec exec_result title msg))"

text \<open>
  \<^verbatim>\<open>exec_int_stmt\<close>: \<open>Inr v\<close> is the return of \<^verbatim>\<open>true\<close> with \<open>v\<close> stored through
  \<^verbatim>\<open>out_value\<close>.
\<close>

definition exec_int_stmt :: "query_env \<Rightarrow> string \<Rightarrow> string \<Rightarrow> int \<Rightarrow> dp_error + int" where
  "exec_int_stmt q msg sql default_value =
     (case prepare (q_prepare_result q) sql msg of
        Inl e \<Rightarrow> Inl e
      | Inr stmt \<Rightarrow>
          (let step_res = q_step_result q in
           if step_res = SQLITE_DONE then Inr default_value
           else if step_res = SQLITE_ROW then
             (if q_column_count q \<ge> 1 then Inr (q_column_int q)
              else Inl (Statement_no_columns sql))
           else Inl (Error_executing_statement step_res sql msg)))"

definition is_empty_db :: "open_env \<Rightarrow> dp_error + bool" where
  "is_empty_db env =
     then_do
       (exec_int_stmt (empty_query env) (open_errmsg env)
          ''select 1 from sqlite_master limit 1'' 0)
       (\<lambda>v. Inr (v = 0))"

definition init_header :: "open_env \<Rightarrow> dp_error + unit" where
  "init_header env =
     then_do
       (exec_write_stmt (set_application_id_result env) ''setting application_id''
          (open_errmsg env))
       (\<lambda>_. exec_write_stmt (set_user_version_result env) ''setting user_version''
          (open_errmsg env))"

definition check_header :: "open_env \<Rightarrow> dp_error + unit" where
  "check_header env =
     then_do
       (exec_int_stmt (application_id_query env) (open_errmsg env) ''pragma application_id''
          (- 1))
       (\<lambda>application_id.
          then_do
            (exec_int_stmt (user_version_query env) (open_errmsg env) ''pragma user_version''
               (- 1))
            (\<lambda>user_version.
               if application_id \<noteq> DP_PROJECT_APPLICATION_ID
               then Inl (Incorrect_application_id application_id)
               else if user_version \<noteq> DP_PROJECT_USER_VERSION
               then Inl (Unknown_user_version user_version)
               else Inr ()))"

text \<open>
  \<^verbatim>\<open>tx\<close> runs a block between \<^verbatim>\<open>begin\<close> and \<^verbatim>\<open>commit\<close>. \<^verbatim>\<open>try_rollback\<close> only logs a
  warning when it fails and sets no error.
\<close>

definition tx :: "open_env \<Rightarrow> (dp_error + unit) \<Rightarrow> dp_error + unit" where
  "tx env block =
     then_do (exec_write_stmt (begin_result env) ''opening transaction'' (open_errmsg env))
       (\<lambda>_. then_do block
          (\<lambda>_. exec_write_stmt (commit_result env) ''committing transaction''
             (open_errmsg env)))"

text \<open>
  The table of migrations has one entry, the initial setup, which creates the tables
  sessions, messages, snapshots and snapshot\_messages; the entry is named here by its
  comment in the source in place of its SQL text.
\<close>

definition migrations :: "string list" where
  "migrations = [''Migration 1: initial setup.'']"

text \<open>
  The loop of \<^verbatim>\<open>apply_migrations\<close> over the indices of the table. The two later error
  messages print \<^verbatim>\<open>bind_result\<close>, as the source does.
\<close>

fun migration_loop :: "migration_env \<Rightarrow> string \<Rightarrow> nat list \<Rightarrow> dp_error + unit" where
  "migration_loop m msg [] = Inr ()"
| "migration_loop m msg (i # rest) =
     (let bind_res = mig_bind_result m i in
      if \<not> is_ok bind_res then Inl (Error_binding_migration bind_res msg)
      else if mig_step_result m i \<noteq> SQLITE_DONE
      then Inl (Error_inserting_migration bind_res msg)
      else if \<not> is_ok (mig_reset_result m i)
      then Inl (Error_resetting_migration bind_res msg)
      else if mig_changes m i > 0 then
        then_do (exec_write_stmt (mig_exec_result m i) ''executing migration'' msg)
          (\<lambda>_. migration_loop m msg rest)
      else migration_loop m msg rest)"

definition apply_migrations :: "open_env \<Rightarrow> dp_error + unit" where
  "apply_migrations env =
     then_do
       (exec_write_stmt (create_table_result (migration env)) ''creating migrations table''
          (open_errmsg env))
       (\<lambda>_. then_do
          (prepare (insert_prepare_result (migration env))
             ''insert or ignore into migrations (migration_id) values (?)'' (open_errmsg env))
          (\<lambda>insert_migration_stmt.
             migration_loop (migration env) (open_errmsg env) [0..<length migrations]))"

text \<open>
  The local array \<^verbatim>\<open>stmts\<close> of \<^verbatim>\<open>DP_project_open\<close> starts uninitialised; a slot holds
  a statement once the loop has stored one. The calls that release resources are
  recorded in the order they are made.
\<close>

datatype stmt_slot = Uninitialised | Prepared sqlite3_stmt

datatype sqlite_call = Finalize stmt_slot | Close

definition DP_PROJECT_STATEMENT_COUNT :: nat where
  "DP_PROJECT_STATEMENT_COUNT = 3"

fun statement_index :: "DP_ProjectStatement \<Rightarrow> nat" where
  "statement_index DP_PROJECT_STATEMENT_MESSAGE_INSERT = 0"
| "statement_index DP_PROJECT_STATEMENT_SESSION_OPEN = 1"
| "statement_index DP_PROJECT_STATEMENT_SESSION_CLOSE = 2"

definition sqls :: "string list" where
  "sqls =
     [''insert into messages (session_id, sequence_id, recorded_at, type, context_id, body) values (?, ?, unixepoch('subsec'), ? ,?, ?)'',
      ''insert into sessions (source_type, source_param, protocol, process_id, opened_at) values (?, ?, ?, ?, unixepoch('subsec'))'',
      ''update sessions set closed_at = unixepoch('subsec') where session_id = ?'']"

text \<open>
  The loop that prepares the cached statements, from index \<open>i\<close> on. When a statement
  fails to prepare, the inner loop runs \<open>j\<close> from 0 below \<open>i\<close> and passes
  \<^verbatim>\<open>stmts[i]\<close> to \<^verbatim>\<open>sqlite3_finalize\<close> each time, then the database is closed.
\<close>

function prepare_statements ::
  "open_env \<Rightarrow> nat \<Rightarrow> stmt_slot list \<Rightarrow> (dp_error \<times> sqlite_call list) + stmt_slot list"
  where
  "prepare_statements env i stmts_array =
     (if i < DP_PROJECT_STATEMENT_COUNT then
        (case prepare (statement_prepare_result env i) (sqls ! i) (open_errmsg env) of
           Inr stmt \<Rightarrow> prepare_statements env (Suc i) (stmts_array[i := Prepared stmt])
         | Inl e \<Rightarrow> Inl (e, map (\<lambda>j. Finalize (stmts_array ! i)) [0..<i] @ [Close]))
      else Inr stmts_array)"
  by pat_completeness auto
termination
  by (relation "measure (\<lambda>(env, i, stmts_array). DP_PROJECT_STATEMENT_COUNT - i)") auto

declare prepare_statements.simps [simp del]

text \<open>
  The result of \<^verbatim>\<open>DP_project_open\<close>: the handle (\<open>None\<close> is the null pointer), the
  error slot after the call, and the releasing calls made on the way out.
\<close>

record open_result =
  handle :: "DP_Project option"
  slot_after :: "dp_error option"
  released :: "sqlite_call list"

definition open_failed :: "dp_error \<Rightarrow> sqlite_call list \<Rightarrow> open_result" where
  "open_failed e calls = \<lparr>handle = None, slot_after = Some e, released = calls\<rparr>"

text \<open>\<^verbatim>\<open>memcpy(prj->stmts, stmts, sizeof(stmts))\<close>: the handle's statement of each kind.\<close>

definition stmts_of_array :: "stmt_slot list \<Rightarrow> DP_ProjectStatement \<Rightarrow> sqlite3_stmt" where
  "stmts_of_array stmts_array ps =
     (case stmts_array ! statement_index ps of
        Prepared stmt \<Rightarrow> stmt
      | Uninitialised \<Rightarrow> \<lparr>stmt_sql = [], bindings = unbound\<rparr>)"

definition DP_project_open :: "open_env \<Rightarrow> string \<Rightarrow> 32 word \<Rightarrow> open_result" where
  "DP_project_open env path flags =
     (let only_existing = (flags AND DP_PROJECT_OPEN_EXISTING \<noteq> 0);
          db_open_flags =
            (if \<not> only_existing
             then SQLITE_OPEN_READWRITE OR SQLITE_OPEN_FULLMUTEX OR SQLITE_OPEN_CREATE
             else SQLITE_OPEN_READWRITE OR SQLITE_OPEN_FULLMUTEX);
          db_open_result = open_v2_result env db_open_flags
      in
      if \<not> is_ok db_open_result
      then open_failed (Error_opening db_open_result path (open_errmsg env)) [Close]
      else if db_readonly env > 0 then open_failed (Error_read_only path) [Close]
      else
        (let truncate = (flags AND DP_PROJECT_OPEN_TRUNCATE \<noteq> 0) in
         case (if truncate then Inr True else is_empty_db env) of
           Inl e \<Rightarrow> open_failed e [Close]
         | Inr empty_db \<Rightarrow>
             (case then_do
                     (then_do (if empty_db then init_header env else Inr ())
                        (\<lambda>_. check_header env))
                     (\<lambda>_. tx env (apply_migrations env)) of
                Inl e \<Rightarrow> open_failed e [Close]
              | Inr init_ok \<Rightarrow>
                  (case prepare_statements env 0
                          (replicate DP_PROJECT_STATEMENT_COUNT Uninitialised) of
                     Inl (e, calls) \<Rightarrow> open_failed e calls
                   | Inr stmts_array \<Rightarrow>
                       \<lparr>handle = Some
                          \<lparr>db = (if truncate then \<lparr>messages = [], sessions = []\<rparr>
                                 else file_tables env),
                           session_id = 0,
                           sequence_id = 0,
                           stmts = stmts_of_array stmts_array,
                           serialize_buffer = allocated_buffer env,
                           dp_error = error_slot env\<rparr>,
                        slot_after = error_slot env,
                        released = []\<rparr>))))"


text \<open>
  Modelled from the spec: the database engine is an external library, so what it reads
  from a store file is taken from the file format of the spec: the application
  identifier is the 4-byte big-endian field at byte offset 68 of the file and the user
  version the one at offset 60, after the 16-byte signature. \<open>existing_store\<close> says that
  the file at the path is an existing, readable database file, that the engine finds
  it non-empty, and that the engine answers the two pragma queries of
  \<^verbatim>\<open>check_header\<close> with these two fields.
\<close>

definition existing_store :: "file_system \<Rightarrow> string \<Rightarrow> open_env \<Rightarrow> bool" where
  "existing_store fs path env =
     (case fs path of
        None \<Rightarrow> False
      | Some input \<Rightarrow>
          \<not> input_error input \<and>
          72 \<le> length (input_content input) \<and>
          take (length magic) (input_content input) = magic \<and>
          is_empty_db env = Inr False \<and>
          exec_int_stmt (application_id_query env) (open_errmsg env)
            ''pragma application_id'' (- 1) =
              Inr (DP_read_bigendian_int32 (drop 68 (input_content input))) \<and>
          exec_int_stmt (user_version_query env) (open_errmsg env)
            ''pragma user_version'' (- 1) =
              Inr (DP_read_bigendian_int32 (drop 60 (input_content input))))"

text \<open>The engine calls of \<^verbatim>\<open>DP_project_open\<close> outside the header handling all succeed.\<close>

definition engine_succeeds :: "open_env \<Rightarrow> 32 word \<Rightarrow> bool" where
  "engine_succeeds env flags =
     (is_ok (open_v2_result env
        (if flags AND DP_PROJECT_OPEN_EXISTING \<noteq> 0
         then SQLITE_OPEN_READWRITE OR SQLITE_OPEN_FULLMUTEX
         else SQLITE_OPEN_READWRITE OR SQLITE_OPEN_FULLMUTEX OR SQLITE_OPEN_CREATE)) \<and>
      db_readonly env \<le> 0 \<and>
      tx env (apply_migrations env) = Inr () \<and>
      is_ok (statement_prepare_result env 0) \<and>
      is_ok (statement_prepare_result env 1) \<and>
      is_ok (statement_prepare_result env 2))"

section \<open>Network session client\<close>

text \<open>
  The client (\<^verbatim>\<open>libclient/net/client.cpp\<close>) counts with C++ \<^verbatim>\<open>int\<close>, 32 bits wide. The
  members \<^verbatim>\<open>m_catchupTo\<close>, \<^verbatim>\<open>m_caughtUp\<close> and \<^verbatim>\<open>m_catchupProgress\<close> are declared in
  \<^verbatim>\<open>client.h\<close>; the source assigns them from \<^verbatim>\<open>toInt()\<close>, adds the \<^verbatim>\<open>int\<close> count of a
  batch to them, compares them with an \<^verbatim>\<open>int\<close> and prints them with \<^verbatim>\<open>%d\<close>, which is
  how \<^verbatim>\<open>int\<close> members are used. Their values are integers here and each arithmetic
  operation of the source is followed by the reduction into the 32-bit two's complement
  range; division truncates towards zero.
\<close>

definition wrap32 :: "int \<Rightarrow> int" where
  "wrap32 x = (x + 2 ^ 31) mod 2 ^ 32 - 2 ^ 31"

definition c_div :: "int \<Rightarrow> int \<Rightarrow> int" where
  "c_div a b = (if (a < 0) = (b < 0) then \<bar>a\<bar> div \<bar>b\<bar> else - (\<bar>a\<bar> div \<bar>b\<bar>))"

datatype ReplyType =
  Unknown | Login | Message | Alert | Error | Result | Log | SessionConf
| SizeLimitWarning | ResetRequest | Status | Reset | Catchup

text \<open>
  Modelled from the spec: \<^verbatim>\<open>ServerReply\<close> is declared in \<^verbatim>\<open>libshared/net/servercmd.h\<close>,
  which is not among the sources at hand. Of a typed server reply the model keeps the
  type and the two fields of the JSON object that decide what the client does:
  \<^verbatim>\<open>reply["count"].toInt()\<close> and \<^verbatim>\<open>reply["state"]\<close>.
\<close>

record ServerReply =
  reply_type :: ReplyType
  reply_count :: int
  reply_state :: string

datatype DP_MessageType =
  DP_MSG_SERVER_COMMAND | DP_MSG_DATA | DP_MSG_DRAW_DABS_CLASSIC | DP_MSG_DRAW_DABS_PIXEL
| DP_MSG_DRAW_DABS_PIXEL_SQUARE | DP_MSG_OTHER nat

text \<open>
  The body of a data message as \<^verbatim>\<open>handleUserInfo\<close> reads it: not a JSON object, or an
  object with its \<^verbatim>\<open>type\<close> field.
\<close>

datatype user_info = Not_an_object | Request_user_info | User_info | Other_info

record DP_MsgData =
  data_recipient :: nat
  data_is_user_info :: bool
  data_body :: user_info

text \<open>
  Modelled from the spec: \<^verbatim>\<open>net::Message\<close> is declared in \<^verbatim>\<open>libclient/net/message.h\<close>,
  which is not among the sources at hand. A protocol message is kept as the client
  inspects it: its type, the server reply decoded from it by
  \<^verbatim>\<open>ServerReply::fromMessage\<close>, its data payload (\<open>None\<close> when \<^verbatim>\<open>toData\<close> is null), the
  indirect-compatibility flag and the rest of its content.
\<close>

record net_Message =
  msg_type :: DP_MessageType
  msg_reply :: ServerReply
  msg_data :: "DP_MsgData option"
  indirect_compat_flag :: bool
  msg_content :: nat

text \<open>
  The signals the client emits and the calls it makes on the server connection, in
  order. Signals whose payload plays no part in the client's state carry none.
  Of the log output only the warning about a dropped message is kept.
\<close>

datatype signal =
  drawingCommandsLocal "net_Message list"
| messagesReceived "net_Message list"
| server_sendMessages "net_Message list"
| server_setSmoothEnabled bool
| catchupProgress int
| serverMessage bool
| serverLog
| sessionConfChange
| autoresetRequested
| serverStatusUpdate
| needSnapshot
| sessionResetted
| userInfoRequested
| userInfoReceived
| qWarning_incompatible net_Message

text \<open>
  Modelled from the spec: the class \<^verbatim>\<open>Client\<close> is declared in \<^verbatim>\<open>libclient/net/client.h\<close>,
  which is not among the sources at hand. The model keeps the members that the functions
  below read and write: the connection (\<open>m_server\<close> says whether the pointer is
  non-null), the compatibility flag, the user id and the three catch-up counters, which
  are \<^verbatim>\<open>int\<close> by their uses in \<^verbatim>\<open>client.cpp\<close>.
\<close>

record Client =
  m_server :: bool
  m_compatibilityMode :: bool
  m_myId :: nat
  m_catchupTo :: int
  m_caughtUp :: int
  m_catchupProgress :: int

subsection \<open>Sending\<close>

text \<open>
  A batch is passed as a count and an array; the functions read the first \<open>count\<close>
  messages. The translator \<^verbatim>\<open>net::makeMessageBackwardCompatible\<close> is an external
  collaborator and a parameter here: \<open>None\<close> is the null message.
\<close>

fun filter_loop ::
  "(net_Message \<Rightarrow> net_Message option) \<Rightarrow> net_Message list
     \<Rightarrow> net_Message list \<times> signal list" where
  "filter_loop makeCompatible [] = ([], [])"
| "filter_loop makeCompatible (msg # rest) =
     (let (compatibleMsgs, logged) = filter_loop makeCompatible rest in
      case makeCompatible msg of
        None \<Rightarrow> (compatibleMsgs, qWarning_incompatible msg # logged)
      | Some compatibleMsg \<Rightarrow> (compatibleMsg # compatibleMsgs, logged))"

definition filterCompatibleMessages ::
  "(net_Message \<Rightarrow> net_Message option) \<Rightarrow> int \<Rightarrow> net_Message list
     \<Rightarrow> net_Message list \<times> signal list" where
  "filterCompatibleMessages makeCompatible count msgs = filter_loop makeCompatible (take (nat count) msgs)"

definition sendCompatibleMessages :: "Client \<Rightarrow> int \<Rightarrow> net_Message list \<Rightarrow> signal list" where
  "sendCompatibleMessages c count msgs =
     (if count > 0 then
        drawingCommandsLocal (take (nat count) msgs) #
        (if m_server c then [server_sendMessages (take (nat count) msgs)]
         else [messagesReceived (take (nat count) msgs)])
      else [])"

definition sendMessages ::
  "(net_Message \<Rightarrow> net_Message option) \<Rightarrow> Client \<Rightarrow> int \<Rightarrow> net_Message list \<Rightarrow> signal list"
  where
  "sendMessages makeCompatible c count msgs =
     (if m_compatibilityMode c then
        (let (compatibleMsgs, logged) = filterCompatibleMessages makeCompatible count msgs
         in logged @ sendCompatibleMessages c (int (length compatibleMsgs)) compatibleMsgs)
      else sendCompatibleMessages c count msgs)"

text \<open>The messages that reach the server or, without a server, are looped back.\<close>

fun forwarded :: "signal list \<Rightarrow> net_Message list" where
  "forwarded [] = []"
| "forwarded (server_sendMessages msgs # rest) = msgs @ forwarded rest"
| "forwarded (messagesReceived msgs # rest) = msgs @ forwarded rest"
| "forwarded (_ # rest) = forwarded rest"

subsection \<open>Receiving\<close>

definition handleResetRequest :: "ServerReply \<Rightarrow> signal list" where
  "handleResetRequest msg =
     (if reply_state msg = ''init'' then [needSnapshot]
      else if reply_state msg = ''reset'' then [sessionResetted]
      else [])"

definition handleServerReply :: "ServerReply \<Rightarrow> Client \<Rightarrow> Client \<times> signal list" where
  "handleServerReply msg c =
     (case reply_type msg of
        Unknown \<Rightarrow> (c, [])
      | Login \<Rightarrow> (c, [])
      | Message \<Rightarrow> (c, [serverMessage False])
      | Alert \<Rightarrow> (c, [serverMessage True])
      | Error \<Rightarrow> (c, [serverMessage False])
      | Result \<Rightarrow> (c, [serverMessage False])
      | Log \<Rightarrow> (c, [serverLog])
      | SessionConf \<Rightarrow> (c, [sessionConfChange])
      | SizeLimitWarning \<Rightarrow> (c, [])
      | ResetRequest \<Rightarrow> (c, [autoresetRequested])
      | Status \<Rightarrow> (c, [serverStatusUpdate])
      | Reset \<Rightarrow> (c, handleResetRequest msg)
      | Catchup \<Rightarrow>
          (let c1 = c\<lparr>m_catchupTo := reply_count msg\<rparr>;
               c2 = c1\<lparr>m_caughtUp := 0, m_catchupProgress := 0\<rparr>
           in (c2, [server_setSmoothEnabled False,
                    catchupProgress (if m_catchupTo c2 > 0 then 0 else 100)])))"

definition handleUserInfo :: "DP_MsgData \<Rightarrow> signal list" where
  "handleUserInfo md =
     (case data_body md of
        Request_user_info \<Rightarrow> [userInfoRequested]
      | User_info \<Rightarrow> [userInfoReceived]
      | Other_info \<Rightarrow> []
      | Not_an_object \<Rightarrow> [])"

definition handleData :: "net_Message \<Rightarrow> Client \<Rightarrow> signal list" where
  "handleData msg c =
     (case msg_data msg of
        None \<Rightarrow> []
      | Some md \<Rightarrow>
          (if data_recipient md = m_myId c
           then (if data_is_user_info md then handleUserInfo md else [])
           else []))"

text \<open>
  The loop of \<^verbatim>\<open>handleMessages\<close> over the batch: it returns the client, the messages
  as the loop leaves them in the array, and the signals emitted.
\<close>

fun handle_loop ::
  "net_Message list \<Rightarrow> Client \<Rightarrow> Client \<times> net_Message list \<times> signal list" where
  "handle_loop [] c = (c, [], [])"
| "handle_loop (msg # rest) c =
     (let (c1, msg1, emitted1) =
        (case msg_type msg of
           DP_MSG_SERVER_COMMAND \<Rightarrow>
             (let (c', emitted) = handleServerReply (msg_reply msg) c in (c', msg, emitted))
         | DP_MSG_DATA \<Rightarrow> (c, msg, handleData msg c)
         | DP_MSG_DRAW_DABS_CLASSIC \<Rightarrow>
             (c, if m_compatibilityMode c then msg\<lparr>indirect_compat_flag := True\<rparr> else msg, [])
         | DP_MSG_DRAW_DABS_PIXEL \<Rightarrow>
             (c, if m_compatibilityMode c then msg\<lparr>indirect_compat_flag := True\<rparr> else msg, [])
         | DP_MSG_DRAW_DABS_PIXEL_SQUARE \<Rightarrow>
             (c, if m_compatibilityMode c then msg\<lparr>indirect_compat_flag := True\<rparr> else msg, [])
         | DP_MSG_OTHER t \<Rightarrow> (c, msg, []));
          (c2, rest2, emitted2) = handle_loop rest c1
      in (c2, msg1 # rest2, emitted1 @ emitted2))"

definition handleMessages :: "int \<Rightarrow> net_Message list \<Rightarrow> Client \<Rightarrow> Client \<times> signal list" where
  "handleMessages count msgs c =
     (let (c1, msgs1, emitted) = handle_loop (take (nat count) msgs) c;
          emitted1 = emitted @ [messagesReceived msgs1]
      in
      if m_catchupTo c1 > 0 then
        (let c2 = c1\<lparr>m_caughtUp := wrap32 (m_caughtUp c1 + count)\<rparr> in
         if m_caughtUp c2 \<ge> m_catchupTo c2 then
           (c2\<lparr>m_catchupTo := 0\<rparr>,
            emitted1 @ [catchupProgress 100, server_setSmoothEnabled True])
         else
           (let progress = c_div (wrap32 (100 * m_caughtUp c2)) (m_catchupTo c2) in
            if progress \<noteq> m_catchupProgress c2
            then (c2\<lparr>m_catchupProgress := progress\<rparr>, emitted1 @ [catchupProgress progress])
            else (c2, emitted1)))
      else (c1, emitted1))"

text \<open>Batches delivered one after the other, and the progress values among the signals.\<close>

fun deliver :: "net_Message list list \<Rightarrow> Client \<Rightarrow> Client \<times> signal list" where
  "deliver [] c = (c, [])"
| "deliver (msgs # batches) c =
     (let (c1, emitted1) = handleMessages (int (length msgs)) msgs c;
          (c2, emitted2) = deliver batches c1
      in (c2, emitted1 @ emitted2))"

fun progress_values :: "signal list \<Rightarrow> int list" where
  "progress_values [] = []"
| "progress_values (catchupProgress p # rest) = p # progress_values rest"
| "progress_values (_ # rest) = progress_values rest"


section \<open>Example inputs\<close>

text \<open>
  A store as \<^verbatim>\<open>DP_project_open\<close> returns it for a new file, an environment in which
  every engine call succeeds, one in which the statement fails to execute, and a
  message with a three-byte body.
\<close>

definition succeeding_env :: stmt_env where
  "succeeding_env =
     \<lparr>bind_result = (\<lambda>_. SQLITE_OK), step_result = SQLITE_DONE, reset_result = SQLITE_OK,
      last_insert_rowid = 1, errmsg = ''not an error'', process_id = 4242\<rparr>"

definition failing_env :: stmt_env where
  "failing_env =
     \<lparr>bind_result = (\<lambda>_. SQLITE_OK), step_result = 13, reset_result = 13,
      last_insert_rowid = 1, errmsg = ''database or disk is full'', process_id = 4242\<rparr>"

definition fresh_project :: DP_Project where
  "fresh_project =
     \<lparr>db = \<lparr>messages = [], sessions = []\<rparr>, session_id = 0, sequence_id = 0,
      stmts = (\<lambda>ps. \<lparr>stmt_sql = sqls ! statement_index ps, bindings = unbound\<rparr>),
      serialize_buffer = replicate 16 0, dp_error = None\<rparr>"

definition example_message :: DP_Message where
  "example_message = \<lparr>message_type = 64, message_context_id = 1, message_body = [1, 2, 3]\<rparr>"


text \<open>The same store with session 2 open and five messages recorded in it.\<close>

definition open_project :: DP_Project where
  "open_project = fresh_project\<lparr>session_id := 2, sequence_id := 5\<rparr>"

text \<open>
  The first 80 bytes of a store file with the given user version: the signature, the
  fields of the engine's header, the user version at offset 60 and the application id
  520585024 at offset 68. A file system that holds this file at every path, and an
  environment in which the engine opens it as a non-empty database, reads the given
  user version from it and succeeds in every call. In \<open>prepare_failing_env\<close> the
  second cached statement fails to prepare.
\<close>

definition store_header :: "byte \<Rightarrow> byte list" where
  "store_header user_version =
     [0x53, 0x51, 0x4c, 0x69, 0x74, 0x65, 0x20, 0x66,
      0x6f, 0x72, 0x6d, 0x61, 0x74, 0x20, 0x33, 0x00,
      0x10, 0x00, 0x01, 0x01, 0x00, 0x40, 0x20, 0x20,
      0, 0, 0, 1, 0, 0, 0, 6,
      0, 0, 0, 0, 0, 0, 0, 0,
      0, 0, 0, 5, 0, 0, 0, 4,
      0, 0, 0, 0, 0, 0, 0, 0,
      0, 0, 0, 1, 0, 0, 0, user_version,
      0, 0, 0, 0, 0x1f, 0x07, 0x7f, 0x40,
      0, 0, 0, 0, 0, 0, 0, 0]"

definition store_fs :: "byte \<Rightarrow> file_system" where
  "store_fs user_version =
     (\<lambda>path. Some \<lparr>input_content = store_header user_version, input_error = False\<rparr>)"

definition row_query :: "int \<Rightarrow> query_env" where
  "row_query v =
     \<lparr>q_prepare_result = SQLITE_OK, q_step_result = SQLITE_ROW, q_column_count = 1,
      q_column_int = v\<rparr>"

definition store_env :: "int \<Rightarrow> open_env" where
  "store_env user_version =
     \<lparr>open_v2_result = (\<lambda>_. SQLITE_OK),
      db_readonly = 0,
      empty_query = row_query 1,
      set_application_id_result = SQLITE_OK,
      set_user_version_result = SQLITE_OK,
      application_id_query = row_query 520585024,
      user_version_query = row_query user_version,
      begin_result = SQLITE_OK,
      migration =
        \<lparr>create_table_result = SQLITE_OK, insert_prepare_result = SQLITE_OK,
         mig_bind_result = (\<lambda>_. SQLITE_OK), mig_step_result = (\<lambda>_. SQLITE_DONE),
         mig_changes = (\<lambda>_. 0), mig_reset_result = (\<lambda>_. SQLITE_OK),
         mig_exec_result = (\<lambda>_. SQLITE_OK)\<rparr>,
      commit_result = SQLITE_OK,
      statement_prepare_result = (\<lambda>_. SQLITE_OK),
      file_tables = \<lparr>messages = [], sessions = []\<rparr>,
      open_errmsg = ''not an error'',
      error_slot = None,
      allocated_buffer = replicate 16 0\<rparr>"

definition prepare_failing_env :: open_env where
  "prepare_failing_env =
     (store_env 1)\<lparr>statement_prepare_result := (\<lambda>i. if i = 1 then 1 else SQLITE_OK)\<rparr>"

text \<open>
  For the client: a message that is no server command, a server command that announces
  a catch-up, a translator without a compatible form for the messages of content 2,
  and a connected client in compatibility mode.
\<close>

definition plain_message :: "nat \<Rightarrow> net_Message" where
  "plain_message n =
     \<lparr>msg_type = DP_MSG_OTHER 64,
      msg_reply = \<lparr>reply_type = Unknown, reply_count = 0, reply_state = []\<rparr>,
      msg_data = None, indirect_compat_flag = False, msg_content = n\<rparr>"

definition catchup_message :: "int \<Rightarrow> net_Message" where
  "catchup_message n =
     \<lparr>msg_type = DP_MSG_SERVER_COMMAND,
      msg_reply = \<lparr>reply_type = Catchup, reply_count = n, reply_state = []\<rparr>,
      msg_data = None, indirect_compat_flag = False, msg_content = 0\<rparr>"

definition example_translator :: "net_Message \<Rightarrow> net_Message option" where
  "example_translator msg =
     (if msg_content msg = 2 then None else Some (msg\<lparr>msg_content := msg_content msg + 100\<rparr>))"

definition compat_client :: Client where
  "compat_client =
     \<lparr>m_server = True, m_compatibilityMode = True, m_myId = 1,
      m_catchupTo = 0, m_caughtUp = 0, m_catchupProgress = 0\<rparr>"

text \<open>
  A message announces a catch-up when it is a server command whose reply has the type
  \<open>Catchup\<close>. Batches are quiet when none of their messages does, and each has at most
  2000000000 messages, so that adding its count to a counter below the target stays
  within \<^verbatim>\<open>int\<close>.
\<close>

definition announces_catchup :: "net_Message \<Rightarrow> bool" where
  "announces_catchup msg =
     (msg_type msg = DP_MSG_SERVER_COMMAND \<and> reply_type (msg_reply msg) = Catchup)"

definition quiet :: "net_Message list list \<Rightarrow> bool" where
  "quiet batches =
     list_all (\<lambda>msgs. \<not> list_ex announces_catchup msgs \<and> length msgs \<le> 2000000000) batches"

section \<open>Properties of the project store: sessions and messages\<close>

lemma and_also_True: "and_also (True, s) f = f s"
  by (simp add: and_also_def)

lemma and_also_False: "and_also (False, s) f = (False, s)"
  by (simp add: and_also_def)

lemmas store_defs =
  Let_def and_also_True and_also_False ps_bind_int64_def ps_bind_int_def ps_bind_blob_def
  ps_bind_text_def ps_exec_write_def ps_clear_bindings_def bind_param_def DP_error_set_def

lemmas record_defs = DP_project_message_record_def DP_message_serialize_body_def store_defs

lemma record_True_iff:
  "fst (DP_project_message_record env msg prj) \<longleftrightarrow>
     session_id prj \<noteq> 0 \<and> message_body msg \<noteq> [] \<and>
     is_ok (bind_result env 1) \<and> is_ok (bind_result env 2) \<and> is_ok (bind_result env 3) \<and>
     is_ok (bind_result env 4) \<and> is_ok (bind_result env 5) \<and>
     step_result env = SQLITE_DONE \<and> is_ok (reset_result env)"
  by (simp add: record_defs split: prod.splits)

lemma record_session_id:
  "session_id (snd (DP_project_message_record env msg prj)) = session_id prj"
  by (simp add: record_defs split: prod.splits)

lemma record_success:
  assumes "fst (DP_project_message_record env msg prj)"
  shows "sequence_id (snd (DP_project_message_record env msg prj)) = sequence_id prj + 1"
    and "messages (db (snd (DP_project_message_record env msg prj))) = messages (db prj) @
           [\<lparr>m_session_id = SqlInt64 (session_id prj),
             m_sequence_id = SqlInt64 (sequence_id prj + 1),
             m_type = SqlInt (message_type msg),
             m_context_id = SqlInt64 (message_context_id msg),
             m_body = SqlBlob (message_body msg)\<rparr>]"
  using assms [unfolded record_True_iff] by (simp_all add: record_defs)

lemma record_all_Cons:
  "record_all ((env, msg) # calls) prj =
     (fst (DP_project_message_record env msg prj) #
        fst (record_all calls (snd (DP_project_message_record env msg prj))),
      snd (record_all calls (snd (DP_project_message_record env msg prj))))"
  by (simp add: case_prod_unfold Let_def)

lemma record_all_success:
  assumes "fst (record_all calls prj) = replicate (length calls) True"
  shows "messages (db (snd (record_all calls prj))) =
           messages (db prj) @
           map (\<lambda>(k, env, msg).
                  \<lparr>m_session_id = SqlInt64 (session_id prj),
                   m_sequence_id = SqlInt64 (sequence_id prj + 1 + of_nat k),
                   m_type = SqlInt (message_type msg),
                   m_context_id = SqlInt64 (message_context_id msg),
                   m_body = SqlBlob (message_body msg)\<rparr>)
             (zip [0..<length calls] calls)"
  using assms
proof (induction calls arbitrary: prj)
  case Nil
  then show ?case by simp
next
  case (Cons c calls)
  obtain env msg where c: "c = (env, msg)" by (cases c)
  let ?r = "DP_project_message_record env msg prj"
  from Cons.prems c have ok: "fst ?r"
    and rest: "fst (record_all calls (snd ?r)) = replicate (length calls) True"
    by (simp_all add: record_all_Cons del: record_all.simps)
  note s = record_success [OF ok] record_session_id [of env msg prj]
  have z: "zip [0..<length (c # calls)] (c # calls) =
      (0, c) # map (\<lambda>(k, x). (Suc k, x)) (zip [0..<length calls] calls)"
    by (simp add: upt_conv_Cons zip_map1 [symmetric] map_Suc_upt del: upt_Suc)
  have "snd (record_all (c # calls) prj) = snd (record_all calls (snd ?r))"
    using c by (simp add: record_all_Cons del: record_all.simps)
  then show ?case
    using Cons.IH [OF rest] s c unfolding z
    by (simp add: case_prod_unfold ac_simps comp_def)
qed

lemmas open_defs = DP_project_session_open_def store_defs

lemma open_True_iff:
  "fst (DP_project_session_open env st sp proto prj) \<longleftrightarrow>
     session_id prj = 0 \<and>
     is_ok (bind_result env 1) \<and> is_ok (bind_result env 2) \<and> is_ok (bind_result env 3) \<and>
     is_ok (bind_result env 4) \<and> step_result env = SQLITE_DONE \<and> is_ok (reset_result env)"
  by (simp add: open_defs split: prod.splits)

lemma open_success:
  assumes "fst (DP_project_session_open env st sp proto prj)"
  shows "sequence_id (snd (DP_project_session_open env st sp proto prj)) = 0"
    and "session_id (snd (DP_project_session_open env st sp proto prj)) = last_insert_rowid env"
    and "messages (db (snd (DP_project_session_open env st sp proto prj))) = messages (db prj)"
  using assms [unfolded open_True_iff] by (simp_all add: open_defs)

lemma sint_of_nat_64:
  assumes "n < 2 ^ 63"
  shows "sint (of_nat n :: 64 word) = int n"
proof -
  have "sint (of_nat n :: 64 word) = sint (word_of_int (int n) :: 64 word)"
    by simp
  also have "\<dots> = signed_take_bit 63 (int n)"
    by (simp only: sint_sbintrunc') simp
  also have "\<dots> = int n"
  proof (rule signed_take_bit_int_eq_self)
    show "- (2 ^ 63) \<le> int n" by (rule order_trans [of _ 0]) simp_all
    from assms have "int n < int (2 ^ 63)" by (simp only: of_nat_less_iff)
    then show "int n < 2 ^ 63" by simp
  qed
  finally show ?thesis .
qed

lemma is_ok_OK: "is_ok SQLITE_OK"
  by (simp add: is_ok_def)


text \<open>
  Claim C1. On a store whose session has just been opened by a successful
  \<^verbatim>\<open>DP_project_session_open\<close>, \<open>N\<close> consecutive successful calls of
  \<^verbatim>\<open>DP_project_message_record\<close> append exactly \<open>N\<close> rows to the messages table; their
  sequence ids are 1, 2, ..., \<open>N\<close> in this order, without gaps, and each carries the
  id of the open session. The counter is a \<^verbatim>\<open>long long\<close>: \<open>N\<close> stays below \<open>2\<^sup>6\<^sup>3\<close>.
\<close>

theorem sequence_ids_after_session_open:
  assumes opened: "fst (DP_project_session_open env0 source_type source_param protocol prj)"
    and prj1: "prj1 = snd (DP_project_session_open env0 source_type source_param protocol prj)"
    and recorded: "fst (record_all calls prj1) = replicate (length calls) True"
    and prj2: "prj2 = snd (record_all calls prj1)"
    and bound: "length calls < 2 ^ 63"
  shows "messages (db prj2) = messages (db prj) @ recorded_since prj prj2 \<and>
         map sequence_number (recorded_since prj prj2) =
           map (\<lambda>k. Some (int k)) [1..<Suc (length calls)] \<and>
         map m_session_id (recorded_since prj prj2) =
           replicate (length calls) (SqlInt64 (DP_project_session_id prj1))"
proof -
  note o = open_success [OF opened, folded prj1]
  let ?rows = "map (\<lambda>(k, env, msg).
                  \<lparr>m_session_id = SqlInt64 (session_id prj1),
                   m_sequence_id = SqlInt64 (sequence_id prj1 + 1 + of_nat k),
                   m_type = SqlInt (message_type msg),
                   m_context_id = SqlInt64 (message_context_id msg),
                   m_body = SqlBlob (message_body msg)\<rparr>)
             (zip [0..<length calls] calls)"
  have m: "messages (db prj2) = messages (db prj) @ ?rows"
    using record_all_success [OF recorded] o(3) prj2 by simp
  then have rs: "recorded_since prj prj2 = ?rows"
    by (simp add: recorded_since_def)
  have len: "length ?rows = length calls" by simp
  have seq: "map sequence_number ?rows = map (\<lambda>k. Some (int k)) [1..<Suc (length calls)]"
  proof (rule nth_equalityI)
    show "length (map sequence_number ?rows) =
          length (map (\<lambda>k. Some (int k)) [1..<Suc (length calls)])"
      by (simp del: upt_Suc)
  next
    fix i assume "i < length (map sequence_number ?rows)"
    then have i: "i < length calls" by simp
    then have "Suc i < 2 ^ 63" using bound by simp
    then have "sint (of_nat (Suc i) :: 64 word) = int (Suc i)"
      by (rule sint_of_nat_64)
    then have "sequence_number (?rows ! i) = Some (int (Suc i))"
      using i o(1) by (simp add: sequence_number_def case_prod_unfold ac_simps)
    then show "map sequence_number ?rows ! i =
               map (\<lambda>k. Some (int k)) [1..<Suc (length calls)] ! i"
      using i by (simp add: nth_upt del: upt_Suc)
  qed
  have sid: "map m_session_id ?rows = replicate (length calls) (SqlInt64 (session_id prj1))"
    by (rule nth_equalityI) (simp_all add: case_prod_unfold)
  show ?thesis
    using m seq sid unfolding rs DP_project_session_id_def by simp
qed

theorem sequence_ids_after_session_open_witness:
  "fst (DP_project_session_open succeeding_env DP_PROJECT_SOURCE_BLANK None ''dp:4.24.0''
          fresh_project) \<and>
   fst (record_all
          [(succeeding_env, example_message), (succeeding_env, example_message),
           (succeeding_env, example_message)]
          (snd (DP_project_session_open succeeding_env DP_PROJECT_SOURCE_BLANK None
                  ''dp:4.24.0'' fresh_project))) = [True, True, True] \<and>
   map sequence_number
     (recorded_since fresh_project
        (snd (record_all
           [(succeeding_env, example_message), (succeeding_env, example_message),
            (succeeding_env, example_message)]
           (snd (DP_project_session_open succeeding_env DP_PROJECT_SOURCE_BLANK None
                   ''dp:4.24.0'' fresh_project))))) = [Some 1, Some 2, Some 3]"
proof -
  let ?p1 = "snd (DP_project_session_open succeeding_env DP_PROJECT_SOURCE_BLANK None
                   ''dp:4.24.0'' fresh_project)"
  let ?calls = "[(succeeding_env, example_message), (succeeding_env, example_message),
            (succeeding_env, example_message)]"
  have h1: "fst (DP_project_session_open succeeding_env DP_PROJECT_SOURCE_BLANK None
                   ''dp:4.24.0'' fresh_project)"
    by (simp add: open_True_iff succeeding_env_def fresh_project_def is_ok_OK)
  have sid: "session_id ?p1 = 1"
    using open_success(2) [OF h1] by (simp add: succeeding_env_def)
  have h2: "fst (record_all ?calls ?p1) = replicate (length ?calls) True"
    by (simp add: record_all_Cons record_True_iff record_session_id sid del: record_all.simps)
       (simp add: succeeding_env_def example_message_def is_ok_OK)
  have h3: "length ?calls < 2 ^ 63" by simp
  from sequence_ids_after_session_open [OF h1 refl h2 refl h3] h1 h2
  show ?thesis by (simp add: upt_conv_Cons del: upt_Suc)
qed



text \<open>
  Claim C2. When the current session id is not zero, \<^verbatim>\<open>DP_project_session_open\<close>
  returns false and sets the error that names the open session's id; nothing else of
  the store changes, in particular neither the current session id nor the sequence
  counter.
\<close>

theorem session_open_rejected_while_open:
  assumes "session_id prj \<noteq> 0"
  shows "fst (DP_project_session_open env source_type source_param protocol prj) = False \<and>
         snd (DP_project_session_open env source_type source_param protocol prj) =
           prj\<lparr>dp_error := Some (Session_already_open (session_id prj))\<rparr> \<and>
         DP_project_session_id
           (snd (DP_project_session_open env source_type source_param protocol prj)) =
           DP_project_session_id prj \<and>
         sequence_id (snd (DP_project_session_open env source_type source_param protocol prj)) =
           sequence_id prj"
proof -
  have "DP_project_session_open env source_type source_param protocol prj =
      (False, DP_error_set (Session_already_open (session_id prj)) prj)"
    using assms by (simp add: DP_project_session_open_def)
  then show ?thesis
    by (simp add: DP_error_set_def DP_project_session_id_def)
qed

theorem session_open_rejected_while_open_witness:
  "session_id open_project \<noteq> 0 \<and>
   fst (DP_project_session_open succeeding_env DP_PROJECT_SOURCE_SESSION_JOIN
          (Some ''drawpile://whatever/something'') ''dp:4.24.2'' open_project) = False \<and>
   dp_error (snd (DP_project_session_open succeeding_env DP_PROJECT_SOURCE_SESSION_JOIN
          (Some ''drawpile://whatever/something'') ''dp:4.24.2'' open_project)) =
     Some (Session_already_open 2) \<and>
   DP_project_session_id (snd (DP_project_session_open succeeding_env
          DP_PROJECT_SOURCE_SESSION_JOIN
          (Some ''drawpile://whatever/something'') ''dp:4.24.2'' open_project)) = 2 \<and>
   sequence_id (snd (DP_project_session_open succeeding_env DP_PROJECT_SOURCE_SESSION_JOIN
          (Some ''drawpile://whatever/something'') ''dp:4.24.2'' open_project)) = 5"
proof -
  have h: "session_id open_project \<noteq> 0"
    by (simp add: open_project_def fresh_project_def)
  from session_open_rejected_while_open [OF h, of succeeding_env
      DP_PROJECT_SOURCE_SESSION_JOIN "Some ''drawpile://whatever/something''" "''dp:4.24.2''"]
  show ?thesis
    using h by (simp add: open_project_def fresh_project_def DP_project_session_id_def)
qed


text \<open>
  A call of \<^verbatim>\<open>DP_project_session_open\<close> that is rejected between two records changes
  only the error slot: the next record has the same result, counter and rows as
  without it.
\<close>

lemma rejected_session_open_leaves_recording_alone:
  assumes "session_id prj \<noteq> 0"
    and "rejected = snd (DP_project_session_open env0 source_type source_param protocol prj)"
  shows "fst (DP_project_message_record env msg rejected) =
           fst (DP_project_message_record env msg prj) \<and>
         sequence_id (snd (DP_project_message_record env msg rejected)) =
           sequence_id (snd (DP_project_message_record env msg prj)) \<and>
         messages (db (snd (DP_project_message_record env msg rejected))) =
           messages (db (snd (DP_project_message_record env msg prj)))"
  using assms
  by (simp add: DP_project_session_open_def record_defs)

text \<open>
  Claim C3. A call of \<^verbatim>\<open>DP_project_message_record\<close> with a session open whose insert
  fails, that is, the insert statement is executed (the body serialized, the five
  parameters bound) and \<^verbatim>\<open>sqlite3_step\<close> does not complete it, returns false, writes no
  row, and has already incremented the sequence counter; the next successful call
  records the number after the consumed one, so the recorded stream has a gap.
\<close>

theorem failed_insert_consumes_sequence_number:
  assumes "session_id prj \<noteq> 0" and "message_body msg \<noteq> []"
    and "is_ok (bind_result env 1)" and "is_ok (bind_result env 2)"
    and "is_ok (bind_result env 3)" and "is_ok (bind_result env 4)"
    and "is_ok (bind_result env 5)"
    and "step_result env \<noteq> SQLITE_DONE"
    and failed: "failed = snd (DP_project_message_record env msg prj)"
    and next_ok: "fst (DP_project_message_record env2 msg2 failed)"
  shows "fst (DP_project_message_record env msg prj) = False \<and>
         sequence_id failed = sequence_id prj + 1 \<and>
         recorded_since prj failed = [] \<and>
         map m_sequence_id
           (recorded_since prj (snd (DP_project_message_record env2 msg2 failed))) =
           [SqlInt64 (sequence_id prj + 2)]"
proof -
  have f: "\<not> fst (DP_project_message_record env msg prj)"
    using assms(8) by (simp add: record_True_iff)
  have s: "sequence_id failed = sequence_id prj + 1"
    unfolding failed using assms(1-8) by (simp add: record_defs)
  have m: "messages (db failed) = messages (db prj)"
    unfolding failed using assms(1-8) by (simp add: record_defs)
  have "messages (db (snd (DP_project_message_record env2 msg2 failed))) =
      messages (db prj) @
        [\<lparr>m_session_id = SqlInt64 (session_id failed),
          m_sequence_id = SqlInt64 (sequence_id prj + 1 + 1),
          m_type = SqlInt (message_type msg2),
          m_context_id = SqlInt64 (message_context_id msg2),
          m_body = SqlBlob (message_body msg2)\<rparr>]"
    using record_success(2) [OF next_ok] s m by simp
  then show ?thesis
    using f s m by (simp add: recorded_since_def)
qed

theorem failed_insert_consumes_sequence_number_witness:
  "session_id open_project \<noteq> 0 \<and>
   fst (DP_project_message_record failing_env example_message open_project) = False \<and>
   sequence_id (snd (DP_project_message_record failing_env example_message open_project)) = 6 \<and>
   fst (DP_project_message_record succeeding_env example_message
          (snd (DP_project_message_record failing_env example_message open_project))) \<and>
   map m_sequence_id
     (recorded_since open_project
        (snd (DP_project_message_record succeeding_env example_message
           (snd (DP_project_message_record failing_env example_message open_project))))) =
     [SqlInt64 7]"
proof -
  let ?failed = "snd (DP_project_message_record failing_env example_message open_project)"
  have h1: "session_id open_project \<noteq> 0" by (simp add: open_project_def fresh_project_def)
  have h2: "message_body example_message \<noteq> []" by (simp add: example_message_def)
  have b: "is_ok (bind_result failing_env n)" for n by (simp add: failing_env_def is_ok_OK)
  have h8: "step_result failing_env \<noteq> SQLITE_DONE"
    by (simp add: failing_env_def SQLITE_DONE_def)
  have h10: "fst (DP_project_message_record succeeding_env example_message ?failed)"
    using h1 h2 by (simp add: record_True_iff record_session_id)
      (simp add: succeeding_env_def is_ok_OK)
  have q: "sequence_id open_project = 5" by (simp add: open_project_def)
  from failed_insert_consumes_sequence_number [OF h1 h2 b b b b b h8 refl h10] h1 h10 q
  show ?thesis by simp
qed


text \<open>
  The counter is incremented while the second parameter is bound, so a failure of any
  later step consumes a number as well, whereas a failure to bind the first parameter
  (the session id) ends the call before the increment.
\<close>

lemma later_failure_consumes_sequence_number:
  assumes "session_id prj \<noteq> 0" and "message_body msg \<noteq> []"
    and "is_ok (bind_result env 1)"
  shows "sequence_id (snd (DP_project_message_record env msg prj)) = sequence_id prj + 1"
  using assms by (simp add: record_defs)

lemma first_bind_failure_keeps_sequence_number:
  assumes "\<not> is_ok (bind_result env 1)"
  shows "fst (DP_project_message_record env msg prj) = False"
    and "sequence_id (snd (DP_project_message_record env msg prj)) = sequence_id prj"
  using assms by (simp_all add: record_defs)


lemmas close_defs = DP_project_session_close_def store_defs


text \<open>
  Claim C9. \<^verbatim>\<open>DP_project_session_close\<close> returns -1 when no session is open, 0 when a
  session is open and the update fails (binding the id, the step or the reset), and 1
  when a session is open and the update succeeds; without an open session the result
  is never the failure result 0, and the store is left as it was.
\<close>

theorem session_close_tri_state:
  "fst (DP_project_session_close env prj) =
     (if session_id prj = 0 then - 1
      else if is_ok (bind_result env 1) \<and> step_result env = SQLITE_DONE \<and>
              is_ok (reset_result env)
      then 1 else 0) \<and>
   (session_id prj = 0 \<longrightarrow>
      fst (DP_project_session_close env prj) \<noteq> 0 \<and>
      snd (DP_project_session_close env prj) = prj)"
proof (cases "session_id prj = 0")
  case True
  then show ?thesis
    by (simp add: DP_project_session_close_def)
next
  case open_session: False
  show ?thesis
  proof (cases "is_ok (bind_result env 1)")
    case True
    then have "fst (DP_project_session_close env prj) =
        (if step_result env = SQLITE_DONE \<and> is_ok (reset_result env) then 1 else 0)"
      using open_session by (simp add: close_defs)
    then show ?thesis
      using open_session True by simp
  next
    case False
    then have "fst (DP_project_session_close env prj) = 0"
      using open_session by (simp add: close_defs)
    then show ?thesis
      using open_session False by simp
  qed
qed

theorem session_close_tri_state_witness:
  "session_id fresh_project = 0 \<and>
   fst (DP_project_session_close failing_env fresh_project) = - 1 \<and>
   snd (DP_project_session_close failing_env fresh_project) = fresh_project \<and>
   fst (DP_project_session_close failing_env open_project) = 0 \<and>
   fst (DP_project_session_close succeeding_env open_project) = 1"
proof -
  have h: "session_id fresh_project = 0" by (simp add: fresh_project_def)
  have o: "session_id open_project \<noteq> 0" by (simp add: open_project_def fresh_project_def)
  from session_close_tri_state [of failing_env fresh_project]
    session_close_tri_state [of failing_env open_project]
    session_close_tri_state [of succeeding_env open_project] h o
  show ?thesis
    by (simp add: failing_env_def succeeding_env_def is_ok_def SQLITE_OK_def SQLITE_DONE_def)
qed


text \<open>
  Claim C10. On a store with an open session \<^verbatim>\<open>DP_project_session_close\<close> clears the
  current session id before the update runs: whatever the update's outcome,
  \<^verbatim>\<open>DP_project_session_id\<close> is 0 afterwards, and a following
  \<^verbatim>\<open>DP_project_session_open\<close> is no longer rejected for an open session: it succeeds
  exactly when its own insert does.
\<close>

theorem session_close_clears_session_first:
  assumes "session_id prj \<noteq> 0"
  shows "DP_project_session_id (snd (DP_project_session_close env prj)) = 0 \<and>
         fst (DP_project_session_open env' source_type source_param protocol
                (snd (DP_project_session_close env prj))) =
           (is_ok (bind_result env' 1) \<and> is_ok (bind_result env' 2) \<and>
            is_ok (bind_result env' 3) \<and> is_ok (bind_result env' 4) \<and>
            step_result env' = SQLITE_DONE \<and> is_ok (reset_result env'))"
proof -
  have "session_id (snd (DP_project_session_close env prj)) = 0"
    using assms by (simp add: close_defs split: prod.splits)
  then show ?thesis
    by (simp add: open_True_iff DP_project_session_id_def)
qed

theorem session_close_clears_session_first_witness:
  "session_id open_project \<noteq> 0 \<and>
   fst (DP_project_session_close failing_env open_project) = 0 \<and>
   DP_project_session_id (snd (DP_project_session_close failing_env open_project)) = 0 \<and>
   fst (DP_project_session_open succeeding_env DP_PROJECT_SOURCE_BLANK None ''dp:4.24.0''
          (snd (DP_project_session_close failing_env open_project)))"
proof -
  have h: "session_id open_project \<noteq> 0" by (simp add: open_project_def fresh_project_def)
  have r: "fst (DP_project_session_close failing_env open_project) = 0"
    using h by (simp add: close_defs failing_env_def is_ok_def SQLITE_OK_def SQLITE_DONE_def
        split: prod.splits)
  from session_close_clears_session_first [OF h, of failing_env succeeding_env
      DP_PROJECT_SOURCE_BLANK None "''dp:4.24.0''"] h r
  show ?thesis
    by (simp add: succeeding_env_def is_ok_def)
qed



section \<open>Properties of the project store: header check and opening\<close>

lemma magic_length: "length magic = 16"
  by (simp add: magic_def)

lemma store_header_fields:
  "length (store_header v) = 80"
  "take 16 (store_header v) = magic"
  "DP_read_bigendian_int32 (drop 68 (store_header v)) = 520585024"
  "DP_read_bigendian_int32 (drop 60 (store_header 1)) = 1"
  "DP_read_bigendian_int32 (drop 60 (store_header 2)) = 2"
  by (simp_all add: store_header_def magic_def DP_read_bigendian_int32_def)

lemma read_header_field:
  assumes "72 \<le> length c" and "n = 60 \<or> n = 68"
  shows "DP_read_bigendian_int32 (drop n (take 72 c)) = DP_read_bigendian_int32 (drop n c)"
  using assms by (auto simp: DP_read_bigendian_int32_def)

lemma DP_project_check_cases:
  "DP_project_check fs path =
     (case fs path of
        None \<Rightarrow> DP_PROJECT_CHECK_ERROR_OPEN
      | Some input \<Rightarrow>
          if input_error input then DP_PROJECT_CHECK_ERROR_READ
          else if length (input_content input) < 72 then DP_PROJECT_CHECK_ERROR_HEADER
          else if take 16 (input_content input) \<noteq> magic then DP_PROJECT_CHECK_ERROR_MAGIC
          else if DP_read_bigendian_int32 (drop 68 (input_content input)) \<noteq>
                    DP_PROJECT_APPLICATION_ID
          then DP_PROJECT_CHECK_ERROR_APPLICATION_ID
          else if DP_read_bigendian_int32 (drop 60 (input_content input)) < 1
          then DP_PROJECT_CHECK_ERROR_USER_VERSION
          else DP_read_bigendian_int32 (drop 60 (input_content input)))"
proof (cases "fs path")
  case None
  then show ?thesis
    by (simp add: DP_project_check_def DP_file_input_new_from_path_def)
next
  case (Some input)
  note len = magic_length
  show ?thesis
  proof (cases "input_error input \<or> length (input_content input) < 72")
    case True
    then show ?thesis
      using Some
      by (auto simp: DP_project_check_def DP_file_input_new_from_path_def DP_input_read_def)
  next
    case False
    then have l: "72 \<le> length (input_content input)" by simp
    have t: "take 16 (take 72 (input_content input)) = take 16 (input_content input)"
      by simp
    show ?thesis
      using Some False l
      by (simp add: DP_project_check_def DP_file_input_new_from_path_def DP_input_read_def
          len t read_header_field Let_def)
  qed
qed

lemmas check_codes =
  DP_PROJECT_CHECK_ERROR_OPEN_def DP_PROJECT_CHECK_ERROR_READ_def
  DP_PROJECT_CHECK_ERROR_HEADER_def DP_PROJECT_CHECK_ERROR_MAGIC_def
  DP_PROJECT_CHECK_ERROR_APPLICATION_ID_def DP_PROJECT_CHECK_ERROR_USER_VERSION_def


text \<open>
  Claim C5. The six error codes of \<^verbatim>\<open>DP_project_check\<close> are negative and pairwise
  distinct, and each failure has its own: the file cannot be opened, the read fails,
  fewer than 72 bytes are read, the first 16 bytes are not the signature, the
  big-endian field at offset 68 is not the application id, the big-endian field at
  offset 60 is less than 1. Otherwise the result is that field, the user version, which
  is positive. The result is never 0.
\<close>

theorem project_check_result:
  "distinct [DP_PROJECT_CHECK_ERROR_OPEN, DP_PROJECT_CHECK_ERROR_READ,
             DP_PROJECT_CHECK_ERROR_HEADER, DP_PROJECT_CHECK_ERROR_MAGIC,
             DP_PROJECT_CHECK_ERROR_APPLICATION_ID, DP_PROJECT_CHECK_ERROR_USER_VERSION] \<and>
   list_all (\<lambda>code. code < 0)
     [DP_PROJECT_CHECK_ERROR_OPEN, DP_PROJECT_CHECK_ERROR_READ,
      DP_PROJECT_CHECK_ERROR_HEADER, DP_PROJECT_CHECK_ERROR_MAGIC,
      DP_PROJECT_CHECK_ERROR_APPLICATION_ID, DP_PROJECT_CHECK_ERROR_USER_VERSION] \<and>
   DP_project_check fs path \<noteq> 0 \<and>
   DP_project_check fs path =
     (case fs path of
        None \<Rightarrow> DP_PROJECT_CHECK_ERROR_OPEN
      | Some input \<Rightarrow>
          if input_error input then DP_PROJECT_CHECK_ERROR_READ
          else if length (input_content input) < 72 then DP_PROJECT_CHECK_ERROR_HEADER
          else if take 16 (input_content input) \<noteq> magic then DP_PROJECT_CHECK_ERROR_MAGIC
          else if DP_read_bigendian_int32 (drop 68 (input_content input)) \<noteq>
                    DP_PROJECT_APPLICATION_ID
          then DP_PROJECT_CHECK_ERROR_APPLICATION_ID
          else if DP_read_bigendian_int32 (drop 60 (input_content input)) < 1
          then DP_PROJECT_CHECK_ERROR_USER_VERSION
          else DP_read_bigendian_int32 (drop 60 (input_content input)))"
proof -
  have "DP_project_check fs path \<noteq> 0"
    unfolding DP_project_check_cases
    by (simp add: check_codes split: option.splits)
  then show ?thesis
    using DP_project_check_cases [of fs path] by (simp add: check_codes)
qed



theorem project_check_result_witness:
  "DP_project_check (store_fs 2) ''project.dppr'' = 2 \<and>
   DP_project_check (\<lambda>path. None) ''project.dppr'' = DP_PROJECT_CHECK_ERROR_OPEN \<and>
   DP_project_check
     (\<lambda>path. Some \<lparr>input_content = take 71 (store_header 1), input_error = False\<rparr>)
     ''project.dppr'' = DP_PROJECT_CHECK_ERROR_HEADER"
  using project_check_result [of "store_fs 2" "''project.dppr''"]
    project_check_result [of "\<lambda>path. None" "''project.dppr''"]
    project_check_result [of
      "\<lambda>path. Some \<lparr>input_content = take 71 (store_header 1), input_error = False\<rparr>"
      "''project.dppr''"]
  by (simp add: store_fs_def store_header_fields DP_PROJECT_APPLICATION_ID_def)

lemma exec_int_stmt_row:
  "exec_int_stmt (row_query v) msg sql d = Inr v"
  by (simp add: exec_int_stmt_def row_query_def prepare_def is_ok_def SQLITE_OK_def
      SQLITE_ROW_def SQLITE_DONE_def)

lemma existing_store_example:
  "existing_store (store_fs 1) path (store_env 1)"
  "existing_store (store_fs 2) path (store_env 2)"
  by (simp_all add: existing_store_def store_fs_def store_env_def store_header_fields
      is_empty_db_def then_do_def exec_int_stmt_row magic_length)

lemma prepare_statements_3: "prepare_statements env 3 a = Inr a"
  by (subst prepare_statements.simps) (simp add: DP_PROJECT_STATEMENT_COUNT_def)

lemma prepare_statements_2:
  "prepare_statements env 2 a =
     (if is_ok (statement_prepare_result env 2)
      then Inr (a[2 := Prepared \<lparr>stmt_sql = sqls ! 2, bindings = unbound\<rparr>])
      else Inl (Error_preparing_statement (statement_prepare_result env 2) (sqls ! 2)
                  (open_errmsg env), [Finalize (a ! 2), Finalize (a ! 2), Close]))"
proof -
  have u: "[0..<2] = [0, 1]" by (simp add: upt_conv_Cons del: upt_Suc)
  have s: "Suc 2 = 3" by simp
  show ?thesis
    by (subst prepare_statements.simps)
       (simp add: DP_PROJECT_STATEMENT_COUNT_def prepare_def u s prepare_statements_3
          del: upt_Suc)
qed

lemma prepare_statements_1:
  "prepare_statements env (Suc 0) a =
     (if is_ok (statement_prepare_result env (Suc 0))
      then prepare_statements env 2
             (a[Suc 0 := Prepared \<lparr>stmt_sql = sqls ! Suc 0, bindings = unbound\<rparr>])
      else Inl (Error_preparing_statement (statement_prepare_result env (Suc 0))
                  (sqls ! Suc 0) (open_errmsg env), [Finalize (a ! Suc 0), Close]))"
proof -
  have s: "Suc (Suc 0) = 2" by simp
  show ?thesis
    by (subst prepare_statements.simps)
       (simp add: DP_PROJECT_STATEMENT_COUNT_def prepare_def s del: One_nat_def)
qed

lemma prepare_statements_0:
  "prepare_statements env 0 a =
     (if is_ok (statement_prepare_result env 0)
      then prepare_statements env (Suc 0)
             (a[0 := Prepared \<lparr>stmt_sql = sqls ! 0, bindings = unbound\<rparr>])
      else Inl (Error_preparing_statement (statement_prepare_result env 0) (sqls ! 0)
                  (open_errmsg env), [Close]))"
  by (subst prepare_statements.simps)
     (simp add: DP_PROJECT_STATEMENT_COUNT_def prepare_def)

lemma prepare_statements_all:
  "prepare_statements env 0 (replicate DP_PROJECT_STATEMENT_COUNT Uninitialised) =
     (if \<not> is_ok (statement_prepare_result env 0) then
        Inl (Error_preparing_statement (statement_prepare_result env 0) (sqls ! 0)
               (open_errmsg env), [Close])
      else if \<not> is_ok (statement_prepare_result env 1) then
        Inl (Error_preparing_statement (statement_prepare_result env 1) (sqls ! 1)
               (open_errmsg env), [Finalize Uninitialised, Close])
      else if \<not> is_ok (statement_prepare_result env 2) then
        Inl (Error_preparing_statement (statement_prepare_result env 2) (sqls ! 2)
               (open_errmsg env), [Finalize Uninitialised, Finalize Uninitialised, Close])
      else
        Inr [Prepared \<lparr>stmt_sql = sqls ! 0, bindings = unbound\<rparr>,
             Prepared \<lparr>stmt_sql = sqls ! 1, bindings = unbound\<rparr>,
             Prepared \<lparr>stmt_sql = sqls ! 2, bindings = unbound\<rparr>])"
proof -
  have r: "replicate DP_PROJECT_STATEMENT_COUNT Uninitialised =
      [Uninitialised, Uninitialised, Uninitialised]"
    by (simp add: DP_PROJECT_STATEMENT_COUNT_def numeral_3_eq_3)
  show ?thesis
    unfolding r
    by (simp add: prepare_statements_0 prepare_statements_1 prepare_statements_2)
qed

lemma tx_example: "tx (store_env v) (apply_migrations (store_env v)) = Inr ()"
  by (simp add: tx_def apply_migrations_def store_env_def then_do_def exec_write_stmt_def
      prepare_def migrations_def is_ok_def SQLITE_OK_def SQLITE_DONE_def)

lemma engine_succeeds_example: "engine_succeeds (store_env v) 0"
  by (simp add: engine_succeeds_def tx_example)
     (simp add: store_env_def is_ok_def)

lemma check_header_iff:
  assumes "exec_int_stmt (application_id_query env) (open_errmsg env)
             ''pragma application_id'' (- 1) = Inr a"
    and "exec_int_stmt (user_version_query env) (open_errmsg env)
             ''pragma user_version'' (- 1) = Inr u"
  shows "check_header env =
           (if a \<noteq> DP_PROJECT_APPLICATION_ID then Inl (Incorrect_application_id a)
            else if u \<noteq> DP_PROJECT_USER_VERSION then Inl (Unknown_user_version u)
            else Inr ())"
  using assms by (simp add: check_header_def then_do_def)

lemma open_handle_iff:
  assumes "is_empty_db env = Inr False" and "flags AND DP_PROJECT_OPEN_TRUNCATE = 0"
  shows "(handle (DP_project_open env path flags) \<noteq> None) =
           (engine_succeeds env flags \<and> check_header env = Inr ())"
proof -
  have u: "(x :: dp_error + unit) = Inr () \<longleftrightarrow> (\<forall>e. x \<noteq> Inl e)" for x
    by (cases x) auto
  show ?thesis
    using assms
    by (auto simp: DP_project_open_def engine_succeeds_def Let_def open_failed_def then_do_def
        prepare_statements_all split: sum.splits if_splits)
qed


text \<open>
  Claim C6, as the claim states it, fails: a store file whose user version is 2 passes
  the standalone check, which returns the positive version 2, and is rejected by the
  header validation of \<^verbatim>\<open>DP_project_open\<close>, which accepts the current version only.
\<close>

theorem newer_version_passes_check_but_not_open:
  "existing_store (store_fs 2) ''project.dppr'' (store_env 2) \<and>
   engine_succeeds (store_env 2) 0 \<and>
   (0 :: 32 word) AND DP_PROJECT_OPEN_TRUNCATE = 0 \<and>
   DP_project_check (store_fs 2) ''project.dppr'' = 2 \<and>
   check_header (store_env 2) = Inl (Unknown_user_version 2) \<and>
   handle (DP_project_open (store_env 2) ''project.dppr'' 0) = None"
proof -
  have h1: "existing_store (store_fs 2) ''project.dppr'' (store_env 2)"
    by (rule existing_store_example)
  have c: "DP_project_check (store_fs 2) ''project.dppr'' = 2"
    by (simp add: DP_project_check_cases store_fs_def store_header_fields
        DP_PROJECT_APPLICATION_ID_def)
  have k: "check_header (store_env 2) = Inl (Unknown_user_version 2)"
    by (simp add: check_header_def then_do_def store_env_def exec_int_stmt_row
        DP_PROJECT_APPLICATION_ID_def DP_PROJECT_USER_VERSION_def)
  have e: "is_empty_db (store_env 2) = Inr False"
    by (simp add: is_empty_db_def then_do_def store_env_def exec_int_stmt_row)
  have "handle (DP_project_open (store_env 2) ''project.dppr'' 0) = None"
    using open_handle_iff [OF e, of 0 "''project.dppr''"] k by simp
  then show ?thesis
    using h1 c k engine_succeeds_example [of 2] by simp
qed


text \<open>
  Claim C6, amended. For an existing non-empty store opened without the truncate flag,
  the header validation of \<^verbatim>\<open>DP_project_open\<close> passes exactly when the standalone check
  returns \<^verbatim>\<open>DP_PROJECT_USER_VERSION\<close>; open returns a handle exactly when, besides, its
  other engine calls succeed; so open fails whenever the check fails or returns another
  version.
\<close>

theorem open_accepts_only_current_version:
  assumes "existing_store fs path env" and "flags AND DP_PROJECT_OPEN_TRUNCATE = 0"
  shows "(check_header env = Inr ()) =
           (DP_project_check fs path = DP_PROJECT_USER_VERSION) \<and>
         (handle (DP_project_open env path flags) \<noteq> None) =
           (engine_succeeds env flags \<and> DP_project_check fs path = DP_PROJECT_USER_VERSION) \<and>
         \<not> (DP_project_check fs path < 1 \<and> handle (DP_project_open env path flags) \<noteq> None)"
proof -
  from assms(1) obtain input where
    i: "fs path = Some input" "\<not> input_error input" "72 \<le> length (input_content input)"
      "take 16 (input_content input) = magic" "is_empty_db env = Inr False"
      "exec_int_stmt (application_id_query env) (open_errmsg env)
            ''pragma application_id'' (- 1) =
              Inr (DP_read_bigendian_int32 (drop 68 (input_content input)))"
      "exec_int_stmt (user_version_query env) (open_errmsg env)
            ''pragma user_version'' (- 1) =
              Inr (DP_read_bigendian_int32 (drop 60 (input_content input)))"
    by (auto simp: existing_store_def magic_length split: option.splits)
  have h: "(check_header env = Inr ()) =
           (DP_project_check fs path = DP_PROJECT_USER_VERSION)"
    unfolding check_header_iff [OF i(6,7)] DP_project_check_cases
    using i(1-4)
    by (simp add: check_codes DP_PROJECT_USER_VERSION_def)
  have o: "(handle (DP_project_open env path flags) \<noteq> None) =
           (engine_succeeds env flags \<and> check_header env = Inr ())"
    by (rule open_handle_iff [OF i(5) assms(2)])
  show ?thesis
    using h o by (auto simp: DP_PROJECT_USER_VERSION_def)
qed

theorem open_accepts_only_current_version_witness:
  "existing_store (store_fs 1) ''project.dppr'' (store_env 1) \<and>
   (0 :: 32 word) AND DP_PROJECT_OPEN_TRUNCATE = 0 \<and>
   DP_project_check (store_fs 1) ''project.dppr'' = DP_PROJECT_USER_VERSION \<and>
   check_header (store_env 1) = Inr () \<and>
   handle (DP_project_open (store_env 1) ''project.dppr'' 0) \<noteq> None"
proof -
  have h1: "existing_store (store_fs 1) ''project.dppr'' (store_env 1)"
    by (rule existing_store_example)
  have h2: "(0 :: 32 word) AND DP_PROJECT_OPEN_TRUNCATE = 0" by simp
  have c: "DP_project_check (store_fs 1) ''project.dppr'' = DP_PROJECT_USER_VERSION"
    by (simp add: DP_project_check_cases store_fs_def store_header_fields
        DP_PROJECT_APPLICATION_ID_def DP_PROJECT_USER_VERSION_def)
  from open_accepts_only_current_version [OF h1 h2] h1 h2 c engine_succeeds_example [of 1]
  show ?thesis by simp
qed


text \<open>
  Claim C4 asks that the statements already prepared are finalized when a later one
  fails to prepare. The source passes \<^verbatim>\<open>stmts[i]\<close>, the slot of the statement that failed,
  to \<^verbatim>\<open>sqlite3_finalize\<close> in place of \<^verbatim>\<open>stmts[j]\<close>: when the second statement fails, the
  one call made has the slot that was never written, and the first statement is not
  finalized. Open returns the null pointer and calls \<^verbatim>\<open>sqlite3_close\<close>.
\<close>

theorem prepared_statement_is_not_finalized:
  "handle (DP_project_open prepare_failing_env ''project.dppr'' 0) = None \<and>
   released (DP_project_open prepare_failing_env ''project.dppr'' 0) =
     [Finalize Uninitialised, Close] \<and>
   Finalize (Prepared \<lparr>stmt_sql = sqls ! 0, bindings = unbound\<rparr>) \<notin>
     set (released (DP_project_open prepare_failing_env ''project.dppr'' 0))"
proof -
  have t: "tx prepare_failing_env (apply_migrations prepare_failing_env) = Inr ()"
    by (simp add: tx_def apply_migrations_def prepare_failing_env_def store_env_def
        then_do_def exec_write_stmt_def
      prepare_def migrations_def is_ok_def SQLITE_OK_def SQLITE_DONE_def)
  have k: "check_header prepare_failing_env = Inr ()"
    by (simp add: check_header_def then_do_def prepare_failing_env_def store_env_def
        exec_int_stmt_row DP_PROJECT_APPLICATION_ID_def DP_PROJECT_USER_VERSION_def)
  have e: "is_empty_db prepare_failing_env = Inr False"
    by (simp add: is_empty_db_def then_do_def prepare_failing_env_def store_env_def
        exec_int_stmt_row)
  have p: "statement_prepare_result prepare_failing_env 0 = SQLITE_OK"
      "statement_prepare_result prepare_failing_env (Suc 0) = 1"
      "open_v2_result prepare_failing_env f = SQLITE_OK"
      "db_readonly prepare_failing_env = 0" for f
    by (simp_all add: prepare_failing_env_def store_env_def)
  have "DP_project_open prepare_failing_env ''project.dppr'' 0 =
      open_failed (Error_preparing_statement 1 (sqls ! 1) (open_errmsg prepare_failing_env))
        [Finalize Uninitialised, Close]"
    by (simp add: DP_project_open_def Let_def t k e p then_do_def prepare_statements_all
        is_ok_def SQLITE_OK_def)
  then show ?thesis by (simp add: open_failed_def)
qed


text \<open>
  Whichever statement fails, no prepared statement is finalized; and a handle is
  returned only when all three statements were prepared.
\<close>

lemma prepare_failure_finalizes_no_statement:
  assumes "prepare_statements env 0 (replicate DP_PROJECT_STATEMENT_COUNT Uninitialised) =
             Inl (e, calls)"
  shows "Finalize (Prepared stmt) \<notin> set calls"
  using assms by (auto simp: prepare_statements_all split: if_splits)

lemma open_handle_needs_all_statements:
  assumes "handle (DP_project_open env path flags) \<noteq> None"
  shows "is_ok (statement_prepare_result env 0) \<and> is_ok (statement_prepare_result env 1) \<and>
         is_ok (statement_prepare_result env 2)"
  using assms
  by (auto simp: DP_project_open_def Let_def open_failed_def prepare_statements_all
      split: sum.splits if_splits)



section \<open>Properties of the network session client\<close>

lemma filter_loop_eq:
  "filter_loop f msgs =
     (List.map_filter f msgs, map qWarning_incompatible (filter (\<lambda>m. f m = None) msgs))"
  by (induction msgs) (auto simp: List.map_filter_simps split: option.splits)

lemma forwarded_append: "forwarded (xs @ ys) = forwarded xs @ forwarded ys"
  by (induction xs rule: forwarded.induct) simp_all

lemma forwarded_warnings: "forwarded (map qWarning_incompatible ms) = []"
  by (induction ms) simp_all


text \<open>
  Claim C7. In compatibility mode \<^verbatim>\<open>sendMessages\<close> passes every message of the batch
  through the translator; a message without a compatible form is logged and dropped,
  and the compatible forms of all the others are forwarded in their order, to the server
  or, without one, looped back. A batch of one translatable and one untranslatable
  message forwards exactly the compatible form of the first.
\<close>

theorem compatibility_mode_filters_each_message:
  assumes "m_compatibilityMode c"
  shows "forwarded (sendMessages makeCompatible c count msgs) =
           List.map_filter makeCompatible (take (nat count) msgs) \<and>
         sendMessages makeCompatible c count msgs =
           map qWarning_incompatible
             (filter (\<lambda>m. makeCompatible m = None) (take (nat count) msgs)) @
           (if List.map_filter makeCompatible (take (nat count) msgs) = [] then []
            else [drawingCommandsLocal
                    (List.map_filter makeCompatible (take (nat count) msgs)),
                  if m_server c
                  then server_sendMessages
                         (List.map_filter makeCompatible (take (nat count) msgs))
                  else messagesReceived
                         (List.map_filter makeCompatible (take (nat count) msgs))])"
  using assms
  by (simp add: sendMessages_def filterCompatibleMessages_def filter_loop_eq
      sendCompatibleMessages_def forwarded_append forwarded_warnings)

theorem compatibility_mode_filters_each_message_witness:
  "m_compatibilityMode compat_client \<and>
   example_translator (plain_message 1) = Some (plain_message 101) \<and>
   example_translator (plain_message 2) = None \<and>
   forwarded (sendMessages example_translator compat_client 2
                [plain_message 1, plain_message 2]) = [plain_message 101] \<and>
   forwarded (sendMessages example_translator compat_client 2
                [plain_message 2, plain_message 1]) = [plain_message 101]"
proof -
  have h: "m_compatibilityMode compat_client" by (simp add: compat_client_def)
  have t: "example_translator (plain_message 1) = Some (plain_message 101)"
    "example_translator (plain_message 2) = None"
    by (simp_all add: example_translator_def plain_message_def)
  from compatibility_mode_filters_each_message [OF h, of example_translator 2
      "[plain_message 1, plain_message 2]"]
    compatibility_mode_filters_each_message [OF h, of example_translator 2
      "[plain_message 2, plain_message 1]"]
    h t
  show ?thesis by (simp add: List.map_filter_simps)
qed

lemma progress_values_append:
  "progress_values (xs @ ys) = progress_values xs @ progress_values ys"
  by (induction xs rule: progress_values.induct) simp_all

lemma deliver_Cons:
  "deliver (msgs # batches) c =
     (fst (deliver batches (fst (handleMessages (int (length msgs)) msgs c))),
      snd (handleMessages (int (length msgs)) msgs c) @
      snd (deliver batches (fst (handleMessages (int (length msgs)) msgs c))))"
  by (simp add: case_prod_unfold Let_def)

lemma wrap32_id: "- (2 ^ 31) \<le> x \<Longrightarrow> x < 2 ^ 31 \<Longrightarrow> wrap32 x = x"
  by (simp add: wrap32_def)

lemma c_div_nonneg: "0 \<le> a \<Longrightarrow> 0 < b \<Longrightarrow> c_div a b = a div b"
  by (simp add: c_div_def)

lemma handleServerReply_other:
  assumes "reply_type r \<noteq> Catchup"
  shows "fst (handleServerReply r c) = c"
    and "progress_values (snd (handleServerReply r c)) = []"
  using assms by (cases "reply_type r"; simp add: handleServerReply_def handleResetRequest_def)+

lemma handleData_progress: "progress_values (handleData msg c) = []"
  by (simp add: handleData_def handleUserInfo_def split: option.splits user_info.splits)

lemma handle_loop_quiet:
  assumes "\<not> list_ex announces_catchup msgs"
  shows "fst (handle_loop msgs c) = c \<and>
         progress_values (snd (snd (handle_loop msgs c))) = []"
  using assms
proof (induction msgs)
  case Nil
  then show ?case by simp
next
  case (Cons msg msgs)
  then have ih: "fst (handle_loop msgs c) = c"
      "progress_values (snd (snd (handle_loop msgs c))) = []"
    by simp_all
  show ?case
  proof (cases "msg_type msg")
    case DP_MSG_SERVER_COMMAND
    with Cons.prems have "reply_type (msg_reply msg) \<noteq> Catchup"
      by (simp add: announces_catchup_def)
    note r = handleServerReply_other [OF this, of c]
    show ?thesis
      using DP_MSG_SERVER_COMMAND ih r
      by (simp add: case_prod_unfold Let_def progress_values_append)
  next
    case DP_MSG_DATA
    then show ?thesis
      using ih by (simp add: case_prod_unfold Let_def progress_values_append handleData_progress)
  qed (use ih in \<open>simp_all add: case_prod_unfold Let_def\<close>)
qed

lemma handleMessages_quiet:
  assumes "\<not> list_ex announces_catchup msgs" and "count = int (length msgs)"
  shows "fst (handleMessages count msgs c) =
           (if m_catchupTo c > 0 then
              (if wrap32 (m_caughtUp c + count) \<ge> m_catchupTo c
               then c\<lparr>m_caughtUp := wrap32 (m_caughtUp c + count), m_catchupTo := 0\<rparr>
               else if c_div (wrap32 (100 * wrap32 (m_caughtUp c + count))) (m_catchupTo c) \<noteq>
                       m_catchupProgress c
               then c\<lparr>m_caughtUp := wrap32 (m_caughtUp c + count),
                      m_catchupProgress :=
                        c_div (wrap32 (100 * wrap32 (m_caughtUp c + count))) (m_catchupTo c)\<rparr>
               else c\<lparr>m_caughtUp := wrap32 (m_caughtUp c + count)\<rparr>)
            else c)"
    and "progress_values (snd (handleMessages count msgs c)) =
           (if m_catchupTo c > 0 then
              (if wrap32 (m_caughtUp c + count) \<ge> m_catchupTo c then [100]
               else if c_div (wrap32 (100 * wrap32 (m_caughtUp c + count))) (m_catchupTo c) \<noteq>
                       m_catchupProgress c
               then [c_div (wrap32 (100 * wrap32 (m_caughtUp c + count))) (m_catchupTo c)]
               else [])
            else [])"
proof -
  have t: "take (nat count) msgs = msgs" using assms(2) by simp
  note q = handle_loop_quiet [OF assms(1), of c]
  obtain c1 msgs1 emitted where h: "handle_loop msgs c = (c1, msgs1, emitted)"
    by (cases "handle_loop msgs c") auto
  with q have c1: "c1 = c" and e: "progress_values emitted = []" by simp_all
  show "fst (handleMessages count msgs c) =
           (if m_catchupTo c > 0 then
              (if wrap32 (m_caughtUp c + count) \<ge> m_catchupTo c
               then c\<lparr>m_caughtUp := wrap32 (m_caughtUp c + count), m_catchupTo := 0\<rparr>
               else if c_div (wrap32 (100 * wrap32 (m_caughtUp c + count))) (m_catchupTo c) \<noteq>
                       m_catchupProgress c
               then c\<lparr>m_caughtUp := wrap32 (m_caughtUp c + count),
                      m_catchupProgress :=
                        c_div (wrap32 (100 * wrap32 (m_caughtUp c + count))) (m_catchupTo c)\<rparr>
               else c\<lparr>m_caughtUp := wrap32 (m_caughtUp c + count)\<rparr>)
            else c)"
    by (simp add: handleMessages_def t h c1 Let_def)
  show "progress_values (snd (handleMessages count msgs c)) =
           (if m_catchupTo c > 0 then
              (if wrap32 (m_caughtUp c + count) \<ge> m_catchupTo c then [100]
               else if c_div (wrap32 (100 * wrap32 (m_caughtUp c + count))) (m_catchupTo c) \<noteq>
                       m_catchupProgress c
               then [c_div (wrap32 (100 * wrap32 (m_caughtUp c + count))) (m_catchupTo c)]
               else [])
            else [])"
    by (simp add: handleMessages_def t h c1 e Let_def progress_values_append)
qed

lemma deliver_after_catchup:
  assumes "quiet batches" and "m_catchupTo c \<le> 0"
  shows "progress_values (snd (deliver batches c)) = []"
  using assms
proof (induction batches arbitrary: c)
  case Nil
  then show ?case by simp
next
  case (Cons msgs batches)
  from Cons.prems(1) have q: "\<not> list_ex announces_catchup msgs" and qs: "quiet batches"
    by (simp_all add: quiet_def)
  note h = handleMessages_quiet [OF q refl, of c]
  from Cons.prems(2) have "fst (handleMessages (int (length msgs)) msgs c) = c"
    and "progress_values (snd (handleMessages (int (length msgs)) msgs c)) = []"
    by (simp_all add: h)
  then show ?case
    using Cons.IH [OF qs Cons.prems(2)]
    by (simp add: deliver_Cons progress_values_append del: deliver.simps)
qed

lemma div_less_100:
  fixes u t :: int
  assumes "0 \<le> u" "u < t"
  shows "100 * u div t < 100"
proof (rule ccontr)
  assume "\<not> 100 * u div t < 100"
  then have "100 \<le> 100 * u div t" by simp
  moreover have t: "0 < t" using assms by simp
  ultimately have "t * 100 \<le> t * (100 * u div t)"
    by (intro mult_left_mono) simp_all
  moreover have "t * (100 * u div t) + 100 * u mod t = 100 * u"
    by (rule mult_div_mod_eq)
  moreover have "0 \<le> 100 * u mod t" using t by simp
  ultimately show False using assms by linarith
qed

lemma handle_loop_plain:
  "handle_loop (replicate n (plain_message k)) c = (c, replicate n (plain_message k), [])"
  by (induction n) (simp_all add: plain_message_def)

lemma handleMessages_plain:
  assumes "count = int n"
  shows "handleMessages count (replicate n (plain_message k)) c =
     (let emitted1 = [messagesReceived (replicate n (plain_message k))] in
      if m_catchupTo c > 0 then
        (let c2 = c\<lparr>m_caughtUp := wrap32 (m_caughtUp c + count)\<rparr> in
         if m_caughtUp c2 \<ge> m_catchupTo c2 then
           (c2\<lparr>m_catchupTo := 0\<rparr>,
            emitted1 @ [catchupProgress 100, server_setSmoothEnabled True])
         else
           (let progress = c_div (wrap32 (100 * m_caughtUp c2)) (m_catchupTo c2) in
            if progress \<noteq> m_catchupProgress c2
            then (c2\<lparr>m_catchupProgress := progress\<rparr>, emitted1 @ [catchupProgress progress])
            else (c2, emitted1)))
      else (c, emitted1))"
  using assms by (simp add: handleMessages_def handle_loop_plain Let_def)


text \<open>
  Claim C8 asks that the progress values lie between 0 and 100 and increase. The source
  computes \<^verbatim>\<open>100 * m_caughtUp / m_catchupTo\<close> in \<^verbatim>\<open>int\<close>: once more than 21474836
  messages are caught up below the target, the product leaves the range of \<^verbatim>\<open>int\<close>.
  For a target of 40000000 and batches of 10000000 messages the third product
  3000000100 wraps to -1294967196 and the value -32 is emitted after 50.
\<close>

theorem catchup_progress_overflows:
  "progress_values
     (snd (deliver
        [[catchup_message 40000000],
         replicate 10000000 (plain_message 0),
         replicate 10000000 (plain_message 0),
         replicate 10000000 (plain_message 0),
         replicate 10000000 (plain_message 0)]
        compat_client)) = [0, 25, 50, - 32, 100]"
proof -
  let ?b = "replicate 10000000 (plain_message 0)"
  define c1 where "c1 = compat_client\<lparr>m_catchupTo := 40000000, m_caughtUp := 1\<rparr>"
  have s1: "handleMessages (int (length [catchup_message 40000000]))
               [catchup_message 40000000] compat_client =
            (c1, [server_setSmoothEnabled False, catchupProgress 0,
                  messagesReceived [catchup_message 40000000]])"
    by (simp add: handleMessages_def handleServerReply_def catchup_message_def
        compat_client_def c1_def Let_def wrap32_def c_div_def)
  define c2 where "c2 = c1\<lparr>m_caughtUp := 10000001, m_catchupProgress := 25\<rparr>"
  have s2: "handleMessages (int (length ?b)) ?b c1 =
            (c2, [messagesReceived ?b, catchupProgress 25])"
    by (simp add: handleMessages_plain c1_def c2_def compat_client_def Let_def
        wrap32_def c_div_def)
  define c3 where "c3 = c2\<lparr>m_caughtUp := 20000001, m_catchupProgress := 50\<rparr>"
  have s3: "handleMessages (int (length ?b)) ?b c2 =
            (c3, [messagesReceived ?b, catchupProgress 50])"
    by (simp add: handleMessages_plain c1_def c2_def c3_def compat_client_def Let_def
        wrap32_def c_div_def)
  define c4 where "c4 = c3\<lparr>m_caughtUp := 30000001, m_catchupProgress := - 32\<rparr>"
  have s4: "handleMessages (int (length ?b)) ?b c3 =
            (c4, [messagesReceived ?b, catchupProgress (- 32)])"
    by (simp add: handleMessages_plain c1_def c2_def c3_def c4_def compat_client_def Let_def
        wrap32_def c_div_def)
  define c5 where "c5 = c4\<lparr>m_caughtUp := 40000001, m_catchupTo := 0\<rparr>"
  have s5: "handleMessages (int (length ?b)) ?b c4 =
            (c5, [messagesReceived ?b, catchupProgress 100, server_setSmoothEnabled True])"
    by (simp add: handleMessages_plain c1_def c2_def c3_def c4_def c5_def compat_client_def
        Let_def wrap32_def c_div_def)
  show ?thesis
    by (simp only: deliver_Cons deliver.simps s1 s2 s3 s4 s5 fst_conv snd_conv)
       (simp add: progress_values_append)
qed


text \<open>
  Below that bound the progress values behave as claim C8 says. From a state that is
  catching up, with the last value emitted equal to the current percentage, quiet
  batches emit strictly increasing values, each greater than the last one emitted
  and at most 100, and the last is 100 once the target is reached.
\<close>

lemma catchup_progress_increasing:
  assumes "quiet batches"
    and "0 < m_catchupTo c" and "m_catchupTo c \<le> 21474836"
    and "0 \<le> m_caughtUp c" and "m_caughtUp c < m_catchupTo c"
    and "m_catchupProgress c = 100 * m_caughtUp c div m_catchupTo c"
  shows "sorted_wrt (<) (progress_values (snd (deliver batches c))) \<and>
         list_all (\<lambda>x. m_catchupProgress c < x \<and> x \<le> 100)
           (progress_values (snd (deliver batches c))) \<and>
         (if m_catchupTo c \<le> m_caughtUp c + int (length (concat batches))
          then progress_values (snd (deliver batches c)) \<noteq> [] \<and>
               last (progress_values (snd (deliver batches c))) = 100
          else True)"
  using assms
proof (induction batches arbitrary: c)
  case Nil
  then show ?case by simp
next
  case (Cons msgs batches)
  let ?T = "m_catchupTo c" and ?u = "m_caughtUp c" and ?p = "m_catchupProgress c"
  let ?n = "int (length msgs)"
  define v where "v = ?u + ?n"
  from Cons.prems(1) have q: "\<not> list_ex announces_catchup msgs" and qs: "quiet batches"
    and n: "?n \<le> 2000000000"
    by (simp_all add: quiet_def)
  have v0: "0 \<le> v" using Cons.prems(4) by (simp add: v_def)
  have w: "wrap32 (?u + ?n) = v"
    unfolding v_def using Cons.prems(3,4,5) n by (intro wrap32_id) simp_all
  note h = handleMessages_quiet [OF q refl, of c, unfolded w]
  let ?c1 = "fst (handleMessages ?n msgs c)"
  let ?ps1 = "progress_values (snd (handleMessages ?n msgs c))"
  let ?rest = "progress_values (snd (deliver batches ?c1))"
  have all: "progress_values (snd (deliver (msgs # batches) c)) = ?ps1 @ ?rest"
    by (simp add: deliver_Cons progress_values_append del: deliver.simps)
  have p99: "?p < 100"
    using div_less_100 [OF Cons.prems(4,5)] Cons.prems(6) by simp
  have len: "?u + int (length (concat (msgs # batches))) =
             v + int (length (concat batches))"
    by (simp add: v_def)
  show ?case
  proof (cases "?T \<le> v")
    case True
    then have c1: "m_catchupTo ?c1 \<le> 0" and ps1: "?ps1 = [100]"
      using Cons.prems(2) by (simp_all add: h)
    have "?rest = []" by (rule deliver_after_catchup [OF qs c1])
    moreover have "?T \<le> v + int (length (concat batches))" using True by simp
    ultimately show ?thesis
      unfolding all ps1 len using p99 by simp
  next
    case False
    then have u1: "v < ?T" by simp
    have nonneg: "0 \<le> 100 * v" using v0 by simp
    have "100 * v < 2 ^ 31" using u1 Cons.prems(3) by simp
    then have w2: "wrap32 (100 * v) = 100 * v"
      using nonneg by (intro wrap32_id) simp_all
    have d: "c_div (100 * v) ?T = 100 * v div ?T"
      using nonneg Cons.prems(2) by (rule c_div_nonneg)
    let ?pr = "100 * v div ?T"
    have "?u \<le> v" by (simp add: v_def)
    then have mono: "?p \<le> ?pr"
      unfolding Cons.prems(6) using Cons.prems(2)
      by (intro zdiv_mono1) simp_all
    have c1: "?c1 = (if ?pr \<noteq> ?p then c\<lparr>m_caughtUp := v, m_catchupProgress := ?pr\<rparr>
                     else c\<lparr>m_caughtUp := v\<rparr>)"
      using Cons.prems(2) False by (simp add: h w2 d)
    have inv: "m_catchupTo ?c1 = ?T" "m_caughtUp ?c1 = v" "m_catchupProgress ?c1 = ?pr"
      by (simp_all add: c1)
    have ih: "sorted_wrt (<) ?rest \<and>
         list_all (\<lambda>x. ?pr < x \<and> x \<le> 100) ?rest \<and>
         (if ?T \<le> v + int (length (concat batches))
          then ?rest \<noteq> [] \<and> last ?rest = 100 else True)"
      using Cons.IH [of ?c1, OF qs] Cons.prems(2,3) v0 u1 unfolding inv by simp
    have ps1: "?ps1 = (if ?pr \<noteq> ?p then [?pr] else [])"
      using Cons.prems(2) False by (simp add: h w2 d)
    have pr100: "?pr < 100"
      using div_less_100 [OF v0 u1] .
    have rest_gt: "list_all (\<lambda>x. ?p < x \<and> x \<le> 100) ?rest"
      using ih mono by (auto simp: list_all_iff)
    have rest_gt': "\<forall>x \<in> set ?rest. ?pr < x"
      using ih by (auto simp: list_all_iff)
    show ?thesis
    proof (cases "?pr = ?p")
      case True
      then show ?thesis
        unfolding all ps1 len using ih by simp
    next
      case False
      then have "?p < ?pr" using mono by simp
      then show ?thesis
        unfolding all ps1 len using ih False pr100 rest_gt rest_gt'
        by (auto simp: list_all_iff)
    qed
  qed
qed


lemma catchup_progress_without_overflow:
  assumes "reply_type announcement = Catchup"
    and "0 < reply_count announcement" and "reply_count announcement \<le> 21474836"
    and "quiet batches"
    and "values =
           progress_values
             (snd (handleServerReply announcement c) @
              snd (deliver batches (fst (handleServerReply announcement c))))"
  shows "hd values = 0 \<and> sorted_wrt (<) values \<and>
         list_all (\<lambda>x. 0 \<le> x \<and> x \<le> 100) values \<and>
         (if reply_count announcement \<le> int (length (concat batches))
          then last values = 100 else True)"
proof -
  let ?c1 = "fst (handleServerReply announcement c)"
  let ?rest = "progress_values (snd (deliver batches ?c1))"
  have c1: "m_catchupTo ?c1 = reply_count announcement" "m_caughtUp ?c1 = 0"
    "m_catchupProgress ?c1 = 0"
    using assms(1) by (simp_all add: handleServerReply_def Let_def)
  have v: "values = 0 # ?rest"
    unfolding assms(5) using assms(1,2)
    by (simp add: handleServerReply_def progress_values_append Let_def)
  have "sorted_wrt (<) ?rest \<and>
        list_all (\<lambda>x. m_catchupProgress ?c1 < x \<and> x \<le> 100) ?rest \<and>
        (if m_catchupTo ?c1 \<le> m_caughtUp ?c1 + int (length (concat batches))
         then ?rest \<noteq> [] \<and> last ?rest = 100 else True)"
    by (rule catchup_progress_increasing [OF assms(4)]) (simp_all add: c1 assms(2,3))
  then show ?thesis
    unfolding v c1 by (auto simp: list_all_iff)
qed

end
